theory Spec2Isabelle
  imports Main "HOL-Library.Word"
begin

section \<open>The BLE to USB HID bridge (src/src/main.c)\<close>

text \<open>
  The firmware is a set of handlers that the Bluetooth stack, the GPIO driver and the
  work queue call, all working on file-level static variables. Each handler is embedded
  as a function from the static variables before the call to the static variables after
  it. Two things are made explicit:
  \<^item> every call into a collaborator (Bluetooth stack, USB HID class, settings store,
    kernel sleep) is appended, in program order, to the field \<open>trace\<close>;
  \<^item> every return code of a collaborator that the source branches on is an input,
    collected in the record \<open>env\<close>.
  The \<open>LOG_*\<close> macros write to the logging backend only and are left out; where the
  two branches of a test on a return code differ in nothing but the log line, the test
  stays and both branches give the same state. The mutex \<open>conn_mutex\<close> brackets single reads and writes of
  \<open>current_conn\<close>; a handler is embedded as running alone, so the lock and unlock
  calls leave no mark.
\<close>

subsection \<open>Data\<close>

type_synonym u8 = "8 word"
type_synonym u16 = "16 word"
type_synonym u64 = "64 word"

text \<open>\<open>bt_addr_le_t\<close>: one type byte and six address bytes.\<close>

record bt_addr_le =
  addr_type :: u8
  addr_val :: "u8 list"

text \<open>\<open>struct bt_conn\<close>, as far as the source looks into it: the object's identity and
  the peer address that \<open>bt_conn_get_dst\<close> returns.\<close>

record bt_conn =
  conn_id :: nat
  conn_dst :: bt_addr_le

text \<open>The enumeration of discovery types in gatt.h, in its order: the first constructor
  is the value 0 that \<open>memset\<close> leaves behind.\<close>

datatype discover_type =
    BT_GATT_DISCOVER_PRIMARY
  | BT_GATT_DISCOVER_SECONDARY
  | BT_GATT_DISCOVER_INCLUDE
  | BT_GATT_DISCOVER_CHARACTERISTIC
  | BT_GATT_DISCOVER_DESCRIPTOR
  | BT_GATT_DISCOVER_ATTRIBUTE
  | BT_GATT_DISCOVER_STD_CHAR_DESC

text \<open>\<open>struct bt_gatt_discover_params\<close>. The field \<open>uuid\<close> is a pointer: \<open>None\<close> is
  NULL, \<open>Some v\<close> points to the 16-bit UUID \<open>v\<close>. \<open>d_func\<close> tells whether the callback
  pointer is \<open>discover_func\<close> (the only function ever stored there) or NULL.\<close>

record bt_gatt_discover_params =
  d_uuid :: "u16 option"
  d_func :: bool
  d_start_handle :: u16
  d_end_handle :: u16
  d_type :: discover_type

text \<open>\<open>struct bt_gatt_subscribe_params\<close>; \<open>s_notify\<close> tells whether the callback
  pointer is \<open>notify_func\<close> or NULL.\<close>

record bt_gatt_subscribe_params =
  s_notify :: bool
  s_value :: u16
  s_value_handle :: u16
  s_ccc_handle :: u16
  s_end_handle :: u16

text \<open>Calls into the collaborators, with the arguments the source passes.\<close>

datatype event =
    Scan_start                                  \<comment> \<open>\<open>bt_le_scan_start\<close>\<close>
  | Scan_stop                                   \<comment> \<open>\<open>bt_le_scan_stop\<close>\<close>
  | Conn_create bt_addr_le                      \<comment> \<open>\<open>bt_conn_le_create\<close>\<close>
  | Conn_ref bt_conn                            \<comment> \<open>\<open>bt_conn_ref\<close>\<close>
  | Conn_unref bt_conn                          \<comment> \<open>\<open>bt_conn_unref\<close>\<close>
  | Conn_disconnect bt_conn u8                  \<comment> \<open>\<open>bt_conn_disconnect\<close>\<close>
  | Gatt_discover bt_conn bt_gatt_discover_params   \<comment> \<open>\<open>bt_gatt_discover\<close>\<close>
  | Gatt_subscribe bt_conn bt_gatt_subscribe_params \<comment> \<open>\<open>bt_gatt_subscribe\<close>\<close>
  | Hid_write "u8 list"                         \<comment> \<open>\<open>hid_int_ep_write\<close>\<close>
  | Settings_save "bt_addr_le option"           \<comment> \<open>\<open>settings_save_one\<close> on ble_bridge/addr\<close>
  | Sleep nat                                   \<comment> \<open>\<open>k_sleep\<close>, in milliseconds\<close>
  | Work_submit                                 \<comment> \<open>\<open>k_work_submit(&button_work)\<close>\<close>
  | Led_toggle                                  \<comment> \<open>\<open>gpio_pin_toggle_dt(&led)\<close>\<close>

text \<open>The static variables of main.c, the two static locals of \<open>discover_func\<close>, and
  the trace.\<close>

record state =
  current_conn :: "bt_conn option"
  subscribe_params :: bt_gatt_subscribe_params
  discover_params :: bt_gatt_discover_params
  keyboard_addr :: bt_addr_le
  keyboard_paired :: bool
  hid_report :: "u8 list"
  usb_configured :: bool
  hid_dev :: "nat option"
  button_press_time :: u64
  button_double_press :: bool
  service_found :: bool
  service_handle :: u16
  trace :: "event list"

text \<open>The return codes of the collaborator calls one handler invocation makes, for the
  calls whose result the source tests. No handler calls the same collaborator function
  twice, except \<open>subscribe_to_reports\<close>, which has a field for each of its two calls. \<open>conn_create_out\<close> is the object
  \<open>bt_conn_le_create\<close> stores through its last argument when it returns 0.\<close>

record env =
  scan_start_ret :: int
  scan_stop_ret :: int
  conn_create_ret :: int
  conn_create_out :: bt_conn
  gatt_discover_ret :: int
  gatt_subscribe_ret :: int
  gatt_subscribe_ret2 :: int
  hid_write_ret :: int

definition emit :: "event list \<Rightarrow> state \<Rightarrow> state" where
  "emit evs s = s\<lparr>trace := trace s @ evs\<rparr>"

text \<open>What a handler appended to the trace: the trace after it, without the trace
  before it.\<close>

definition emitted :: "state \<Rightarrow> state \<Rightarrow> event list" where
  "emitted s s' = drop (length (trace s)) (trace s')"

subsection \<open>Constants of the headers\<close>

text \<open>The source names these constants and takes their values from Zephyr's headers,
  which are not part of the repository: the errno values \<open>EALREADY\<close> and \<open>EAGAIN\<close>,
  the advertising data types of the complete and the shortened local name, the UUID of
  the HID report characteristic, the notification bit of the client characteristic
  configuration, and the first and last attribute handle. No theorem below depends on
  the numbers chosen for the two errno values.\<close>

definition EALREADY :: int where "EALREADY = 120"
definition EAGAIN :: int where "EAGAIN = 11"
definition BT_DATA_NAME_SHORTENED :: u8 where "BT_DATA_NAME_SHORTENED = 0x08"
definition BT_DATA_NAME_COMPLETE :: u8 where "BT_DATA_NAME_COMPLETE = 0x09"
definition BT_UUID_HIDS_VAL :: u16 where "BT_UUID_HIDS_VAL = 0x1812"
definition BT_UUID_HIDS_REPORT_VAL :: u16 where "BT_UUID_HIDS_REPORT_VAL = 0x2a4d"
definition BT_GATT_CCC_NOTIFY :: u16 where "BT_GATT_CCC_NOTIFY = 0x0001"
definition BT_ATT_FIRST_ATTRIBUTE_HANDLE :: u16 where "BT_ATT_FIRST_ATTRIBUTE_HANDLE = 0x0001"
definition BT_ATT_LAST_ATTRIBUTE_HANDLE :: u16 where "BT_ATT_LAST_ATTRIBUTE_HANDLE = 0xffff"
definition BT_HCI_ERR_REMOTE_USER_TERM_CONN :: u8 where "BT_HCI_ERR_REMOTE_USER_TERM_CONN = 0x13"

definition TARGET_DEVICE_NAME :: string where "TARGET_DEVICE_NAME = ''Adv360 Pro''"
definition TARGET_DEVICE_NAME_ALT :: string where "TARGET_DEVICE_NAME_ALT = ''Adv360 Pro R''"
definition TARGET_DEVICE_NAME_ALT2 :: string where "TARGET_DEVICE_NAME_ALT2 = ''Adv360 Pro L''"

text \<open>The return values of the GATT callbacks.\<close>

datatype gatt_iter = BT_GATT_ITER_STOP | BT_GATT_ITER_CONTINUE

text \<open>What \<open>memset(p, 0, sizeof *p)\<close> leaves in each of the structures.\<close>

definition zero_discover_params :: bt_gatt_discover_params where
  "zero_discover_params =
     \<lparr>d_uuid = None, d_func = False, d_start_handle = 0, d_end_handle = 0,
      d_type = BT_GATT_DISCOVER_PRIMARY\<rparr>"

definition zero_subscribe_params :: bt_gatt_subscribe_params where
  "zero_subscribe_params =
     \<lparr>s_notify = False, s_value = 0, s_value_handle = 0, s_ccc_handle = 0, s_end_handle = 0\<rparr>"

definition zero_addr :: bt_addr_le where
  "zero_addr = \<lparr>addr_type = 0, addr_val = replicate 6 0\<rparr>"

text \<open>The static initialisers of main.c.\<close>

definition init_state :: state where
  "init_state =
     \<lparr>current_conn = None,
      subscribe_params = zero_subscribe_params,
      discover_params = zero_discover_params,
      keyboard_addr = zero_addr,
      keyboard_paired = False,
      hid_report = replicate 8 0,
      usb_configured = False,
      hid_dev = None,
      button_press_time = 0,
      button_double_press = False,
      service_found = False,
      service_handle = 0,
      trace = []\<rparr>"

subsection \<open>Report relay\<close>

text \<open>\<open>notify_func\<close> (lines 133 to 162). \<open>data\<close> is the payload the stack points to
  (\<open>None\<close> for NULL) and \<open>len\<close> the length it reports; the stack hands over \<open>len\<close>
  readable bytes, so \<open>memcpy(hid_report, data, 8)\<close> under \<open>len >= 8\<close> copies the first
  eight of them. \<open>params\<close> is the pointer the stack was given at subscription, which is
  always \<open>&subscribe_params\<close>.\<close>

definition notify_func ::
  "env \<Rightarrow> bt_conn \<Rightarrow> u8 list option \<Rightarrow> u16 \<Rightarrow> state \<Rightarrow> gatt_iter \<times> state" where
  "notify_func e conn data len s =
     (case data of
        None \<Rightarrow>
          (BT_GATT_ITER_STOP,
           s\<lparr>subscribe_params := (subscribe_params s)\<lparr>s_value_handle := 0\<rparr>\<rparr>)
      | Some d \<Rightarrow>
          if 8 \<le> len then
            let s1 = s\<lparr>hid_report := take 8 d\<rparr>;
                s2 = (if usb_configured s1 \<and> hid_dev s1 \<noteq> None then
                        let s' = emit [Hid_write (hid_report s1)] s1;
                            ret = hid_write_ret e
                        in if ret < 0 \<and> ret \<noteq> - EAGAIN then s' else s'
                      else s1)
            in (BT_GATT_ITER_CONTINUE, s2)
          else (BT_GATT_ITER_CONTINUE, s))"

text \<open>\<open>subscribe_to_reports\<close> (lines 165 to 192). \<open>value_handle + 1\<close> and
  \<open>value_handle + 5\<close> are stored in 16-bit fields, so they wrap.\<close>

definition subscribe_to_reports :: "env \<Rightarrow> bt_conn \<Rightarrow> u16 \<Rightarrow> state \<Rightarrow> state" where
  "subscribe_to_reports e conn value_handle s =
     (let p1 = zero_subscribe_params
                 \<lparr>s_notify := True, s_value := BT_GATT_CCC_NOTIFY,
                  s_value_handle := value_handle, s_ccc_handle := value_handle + 1\<rparr>;
          s1 = emit [Gatt_subscribe conn p1] (s\<lparr>subscribe_params := p1\<rparr>);
          err = gatt_subscribe_ret e
      in if err \<noteq> 0 \<and> err \<noteq> - EALREADY then
           let p2 = p1\<lparr>s_ccc_handle := 0, s_end_handle := value_handle + 5\<rparr>;
               s2 = emit [Gatt_subscribe conn p2] (s1\<lparr>subscribe_params := p2\<rparr>);
               err2 = gatt_subscribe_ret2 e
           in if err2 \<noteq> 0 \<and> err2 \<noteq> - EALREADY then s2 else s2
         else s1)"

subsection \<open>GATT discovery\<close>

text \<open>An attribute as the discovery callback sees it: its handle, and the value handle
  that \<open>bt_gatt_attr_value_handle\<close> computes for it.\<close>

record bt_gatt_attr =
  attr_handle :: u16
  attr_value_handle :: u16

text \<open>\<open>discover_func\<close> (lines 195 to 256). \<open>params\<close> is the pointer given to
  \<open>bt_gatt_discover\<close>, always \<open>&discover_params\<close>. \<open>bt_uuid_cmp\<close> reads through
  \<open>params->uuid\<close>; with a NULL pointer there the call faults, which is the result
  \<open>None\<close>.\<close>

definition discover_func ::
  "env \<Rightarrow> bt_conn \<Rightarrow> bt_gatt_attr option \<Rightarrow> state \<Rightarrow> (gatt_iter \<times> state) option" where
  "discover_func e conn attr s =
     (case attr of
        None \<Rightarrow>
          if d_type (discover_params s) = BT_GATT_DISCOVER_PRIMARY then
            if service_found s then
              let s1 = s\<lparr>service_found := False\<rparr>;
                  dp = zero_discover_params
                         \<lparr>d_uuid := Some BT_UUID_HIDS_REPORT_VAL, d_func := True,
                          d_type := BT_GATT_DISCOVER_CHARACTERISTIC,
                          d_start_handle := service_handle s1, d_end_handle := 0xffff\<rparr>;
                  s2 = emit [Gatt_discover conn dp] (s1\<lparr>discover_params := dp\<rparr>)
              in if gatt_discover_ret e \<noteq> 0
                 then Some (BT_GATT_ITER_STOP, s2) else Some (BT_GATT_ITER_STOP, s2)
            else Some (BT_GATT_ITER_STOP, s\<lparr>discover_params := zero_discover_params\<rparr>)
          else Some (BT_GATT_ITER_STOP, s\<lparr>discover_params := zero_discover_params\<rparr>)
      | Some a \<Rightarrow>
          if d_type (discover_params s) = BT_GATT_DISCOVER_PRIMARY then
            (case d_uuid (discover_params s) of
               None \<Rightarrow> None
             | Some u \<Rightarrow>
                 if u = BT_UUID_HIDS_VAL
                 then Some (BT_GATT_ITER_CONTINUE,
                            s\<lparr>service_found := True, service_handle := attr_handle a\<rparr>)
                 else Some (BT_GATT_ITER_CONTINUE, s))
          else if d_type (discover_params s) = BT_GATT_DISCOVER_CHARACTERISTIC then
            (case d_uuid (discover_params s) of
               None \<Rightarrow> None
             | Some u \<Rightarrow>
                 if u = BT_UUID_HIDS_REPORT_VAL then
                   let value_handle = attr_value_handle a;
                       s1 = s\<lparr>discover_params := zero_discover_params\<rparr>
                   in Some (BT_GATT_ITER_STOP, subscribe_to_reports e conn value_handle s1)
                 else Some (BT_GATT_ITER_CONTINUE, s))
          else Some (BT_GATT_ITER_CONTINUE, s))"

text \<open>The stack's side of one discovery procedure, from the contract of
  \<open>bt_gatt_discover\<close>: the callback is called for each attribute found, in order of
  handles, until it returns \<open>BT_GATT_ITER_STOP\<close>; when the attributes run out it is
  called once more with NULL.\<close>

fun deliver :: "env \<Rightarrow> bt_conn \<Rightarrow> bt_gatt_attr list \<Rightarrow> state \<Rightarrow> state option" where
  "deliver e conn [] s = map_option snd (discover_func e conn None s)"
| "deliver e conn (a # as) s =
     (case discover_func e conn (Some a) s of
        None \<Rightarrow> None
      | Some (r, s') \<Rightarrow> if r = BT_GATT_ITER_STOP then Some s' else deliver e conn as s')"

subsection \<open>Scanning and reconnecting\<close>

text \<open>\<open>start_scan\<close> (lines 429 to 456). Both outcomes of \<open>bt_le_scan_start\<close> return
  at once; they differ in the log line.\<close>

definition start_scan :: "env \<Rightarrow> state \<Rightarrow> state" where
  "start_scan e s =
     (let already_connected = (current_conn s \<noteq> None) in
      if already_connected then s
      else
        let s1 = emit [Scan_start] s in
        if scan_start_ret e \<noteq> 0 then s1 else s1)"

text \<open>\<open>attempt_reconnect\<close> (lines 458 to 489).\<close>

definition attempt_reconnect :: "env \<Rightarrow> state \<Rightarrow> state" where
  "attempt_reconnect e s =
     (let already_connected = (current_conn s \<noteq> None) in
      if already_connected then s
      else if \<not> keyboard_paired s then start_scan e s
      else
        let s1 = emit [Conn_create (keyboard_addr s)] s in
        if conn_create_ret e \<noteq> 0 then start_scan e s1
        else emit [Conn_unref (conn_create_out e)] s1)"

subsection \<open>Connection callbacks\<close>

text \<open>The release of the handle, as both connection callbacks write it:
  \<open>if (current_conn) { bt_conn_unref(current_conn); current_conn = NULL; }\<close>.\<close>

definition release_conn :: "state \<Rightarrow> state" where
  "release_conn s =
     (case current_conn s of
        None \<Rightarrow> s
      | Some c \<Rightarrow> (emit [Conn_unref c] s)\<lparr>current_conn := None\<rparr>)"

text \<open>\<open>connected\<close> (lines 283 to 332).\<close>

definition connected :: "env \<Rightarrow> bt_conn \<Rightarrow> u8 \<Rightarrow> state \<Rightarrow> state" where
  "connected e conn err s =
     (if err \<noteq> 0 then
        let s1 = release_conn s;
            s2 = emit [Sleep 1000] s1
        in if keyboard_paired s2 then attempt_reconnect e s2 else start_scan e s2
      else
        let s1 = (emit [Conn_ref conn] s)\<lparr>current_conn := Some conn\<rparr>;
            s2 = s1\<lparr>keyboard_addr := conn_dst conn, keyboard_paired := True\<rparr>;
            s3 = emit [Settings_save (Some (keyboard_addr s2))] s2;
            dp = (discover_params s3)
                   \<lparr>d_uuid := Some BT_UUID_HIDS_VAL, d_func := True,
                    d_start_handle := BT_ATT_FIRST_ATTRIBUTE_HANDLE,
                    d_end_handle := BT_ATT_LAST_ATTRIBUTE_HANDLE,
                    d_type := BT_GATT_DISCOVER_PRIMARY\<rparr>;
            s4 = emit [Gatt_discover conn dp] (s3\<lparr>discover_params := dp\<rparr>)
        in if gatt_discover_ret e \<noteq> 0 then s4 else s4)"

text \<open>\<open>disconnected\<close> (lines 334 to 362).\<close>

definition disconnected :: "env \<Rightarrow> bt_conn \<Rightarrow> u8 \<Rightarrow> state \<Rightarrow> state" where
  "disconnected e conn reason s =
     (let s1 = release_conn s;
          s2 = s1\<lparr>hid_report := replicate 8 0\<rparr>;
          s3 = (if usb_configured s2 \<and> hid_dev s2 \<noteq> None
                then emit [Hid_write (hid_report s2)] s2 else s2);
          s4 = emit [Sleep 1000] s3
      in if keyboard_paired s4 then attempt_reconnect e s4 else start_scan e s4)"

subsection \<open>Advertisement handling\<close>

text \<open>One element of the advertising data, \<open>struct bt_data\<close>.\<close>

record bt_data =
  data_type :: u8
  data_len :: u8
  data_bytes :: string

text \<open>\<open>strstr\<close> on C strings without the terminator: does \<open>needle\<close> occur in
  \<open>hay\<close> as a contiguous run.\<close>

fun starts_with :: "string \<Rightarrow> string \<Rightarrow> bool" where
  "starts_with hay [] = True"
| "starts_with [] (c # cs) = False"
| "starts_with (h # hs) (c # cs) = (h = c \<and> starts_with hs cs)"

fun strstr :: "string \<Rightarrow> string \<Rightarrow> bool" where
  "strstr [] needle = starts_with [] needle"
| "strstr (h # hs) needle = (starts_with (h # hs) needle \<or> strstr hs needle)"

text \<open>The local buffer \<open>name\<close> after the \<open>memcpy\<close> and the terminator: at most 29
  bytes of the element, read as a C string, which ends at the first zero byte.\<close>

definition copied_name :: "bt_data \<Rightarrow> string" where
  "copied_name d =
     takeWhile (\<lambda>c. c \<noteq> CHR 0x00) (take (min (unat (data_len d)) 29) (data_bytes d))"

text \<open>\<open>device_found\<close> (lines 370 to 420); \<open>addr\<close> is the advertiser's address, passed
  as \<open>user_data\<close>.\<close>

definition device_found :: "env \<Rightarrow> bt_data \<Rightarrow> bt_addr_le \<Rightarrow> state \<Rightarrow> bool \<times> state" where
  "device_found e d addr s =
     (if data_type d = BT_DATA_NAME_COMPLETE \<or> data_type d = BT_DATA_NAME_SHORTENED then
        let name = copied_name d in
        if strstr name TARGET_DEVICE_NAME \<or> strstr name TARGET_DEVICE_NAME_ALT
           \<or> strstr name TARGET_DEVICE_NAME_ALT2 then
          let s1 = emit [Scan_stop] s in
          if scan_stop_ret e \<noteq> 0 then (True, s1)
          else
            let s2 = emit [Sleep 100] s1;
                s3 = emit [Conn_create addr] s2
            in if conn_create_ret e \<noteq> 0
               then (False, start_scan e (emit [Sleep 1000] s3))
               else (False, emit [Conn_unref (conn_create_out e)] s3)
        else (True, s)
      else (True, s))"

subsection \<open>Button\<close>

text \<open>The double-press branch of \<open>button_work_handler\<close> (lines 496 to 518), under a
  name of its own.\<close>

definition unpair_branch :: "env \<Rightarrow> state \<Rightarrow> state" where
  "unpair_branch e s =
     (let s1 = (case current_conn s of
                  None \<Rightarrow> s
                | Some c \<Rightarrow>
                    (emit [Conn_disconnect c BT_HCI_ERR_REMOTE_USER_TERM_CONN, Conn_unref c] s)
                      \<lparr>current_conn := None\<rparr>);
          s2 = s1\<lparr>keyboard_paired := False, keyboard_addr := zero_addr\<rparr>;
          s3 = emit [Settings_save None] s2;
          s4 = emit [Sleep 100] s3;
          s5 = start_scan e s4
      in s5\<lparr>button_double_press := False\<rparr>)"

text \<open>\<open>button_work_handler\<close> (lines 493 to 531).\<close>

definition button_work_handler :: "env \<Rightarrow> state \<Rightarrow> state" where
  "button_work_handler e s =
     (if button_double_press s then unpair_branch e s
      else
        let should_reconnect = (current_conn s = None \<and> keyboard_paired s) in
        if should_reconnect then attempt_reconnect e s else s)"

text \<open>\<open>button_pressed\<close> (lines 534 to 550); \<open>now\<close> is what \<open>k_uptime_get\<close> returns,
  in milliseconds. The subtraction is unsigned 64-bit.\<close>

definition button_pressed :: "u64 \<Rightarrow> state \<Rightarrow> state" where
  "button_pressed now s =
     (let s1 = (if now - button_press_time s < 500
                then s\<lparr>button_double_press := True\<rparr>
                else s\<lparr>button_double_press := False\<rparr>);
          s2 = s1\<lparr>button_press_time := now\<rparr>
      in emit [Work_submit] s2)"

text \<open>One press as the work queue serialises it: the interrupt handler, then the work
  item it submitted.\<close>

definition press :: "env \<Rightarrow> u64 \<Rightarrow> state \<Rightarrow> state" where
  "press e now s = button_work_handler e (button_pressed now s)"

subsection \<open>Main loop\<close>

text \<open>One round of the loop at the end of \<open>main\<close> (lines 646 to 659).\<close>

definition main_loop_iter :: "state \<Rightarrow> state" where
  "main_loop_iter s =
     (let s1 = emit [Sleep 1000] s;
          is_connected = (current_conn s1 \<noteq> None)
      in if \<not> is_connected then emit [Led_toggle] s1 else s1)"

subsection \<open>The handlers as one system\<close>

text \<open>The entry points that the stack, the GPIO driver, the work queue and \<open>main\<close>
  call, each with the inputs of one invocation. \<open>Device_found\<close> is one element of one
  advertisement report handed to \<open>device_found\<close>; \<open>Main_loop\<close> is one round of the
  loop in \<open>main\<close>.\<close>

datatype call =
    Connected env bt_conn u8
  | Disconnected env bt_conn u8
  | Notify env bt_conn "u8 list option" u16
  | Discover env bt_conn "bt_gatt_attr option"
  | Device_found env bt_data bt_addr_le
  | Button_pressed u64
  | Button_work env
  | Main_loop

text \<open>One invocation; \<open>None\<close> is the fault of \<open>discover_func\<close>.\<close>

fun exec :: "call \<Rightarrow> state \<Rightarrow> state option" where
  "exec (Connected e conn err) s = Some (connected e conn err s)"
| "exec (Disconnected e conn reason) s = Some (disconnected e conn reason s)"
| "exec (Notify e conn data len) s = Some (snd (notify_func e conn data len s))"
| "exec (Discover e conn attr) s = map_option snd (discover_func e conn attr s)"
| "exec (Device_found e d addr) s = Some (snd (device_found e d addr s))"
| "exec (Button_pressed now) s = Some (button_pressed now s)"
| "exec (Button_work e) s = Some (button_work_handler e s)"
| "exec Main_loop s = Some (main_loop_iter s)"

text \<open>A sequence of invocations, one after the other.\<close>

fun run :: "call list \<Rightarrow> state \<Rightarrow> state option" where
  "run [] s = Some s"
| "run (c # cs) s = (case exec c s of None \<Rightarrow> None | Some s' \<Rightarrow> run cs s')"

fun is_connected :: "call \<Rightarrow> bool" where
  "is_connected (Connected e conn err) = True"
| "is_connected c = False"

fun is_subscribe :: "event \<Rightarrow> bool" where
  "is_subscribe (Gatt_subscribe conn p) = True"
| "is_subscribe ev = False"

text \<open>The variables of the discovery, and the condition they are in when
  \<open>discover_func\<close> calls \<open>subscribe_to_reports\<close>: \<open>discover_params\<close> cleared, no
  service match on record.\<close>

definition disc_vars :: "state \<Rightarrow> bt_gatt_discover_params \<times> bool" where
  "disc_vars s = (discover_params s, service_found s)"

definition discovery_idle :: "state \<Rightarrow> bool" where
  "discovery_idle s \<longleftrightarrow> discover_params s = zero_discover_params \<and> \<not> service_found s"

subsection \<open>Example inputs\<close>

text \<open>The parameters that the end of the service phase writes into
  \<open>discover_params\<close> and passes to \<open>bt_gatt_discover\<close>, for a service that starts at
  handle \<open>h\<close>.\<close>

definition char_phase_params :: "u16 \<Rightarrow> bt_gatt_discover_params" where
  "char_phase_params h =
     \<lparr>d_uuid = Some BT_UUID_HIDS_REPORT_VAL, d_func = True, d_start_handle = h,
      d_end_handle = 0xffff, d_type = BT_GATT_DISCOVER_CHARACTERISTIC\<rparr>"

text \<open>A keyboard, a connection to it, and a stack whose calls all succeed.\<close>

definition kbd_addr :: bt_addr_le where
  "kbd_addr = \<lparr>addr_type = 1, addr_val = [0xc0, 0x11, 0x22, 0x33, 0x44, 0x55]\<rparr>"

definition kbd_conn :: bt_conn where
  "kbd_conn = \<lparr>conn_id = 1, conn_dst = kbd_addr\<rparr>"

definition env_ok :: env where
  "env_ok = \<lparr>scan_start_ret = 0, scan_stop_ret = 0, conn_create_ret = 0,
             conn_create_out = kbd_conn, gatt_discover_ret = 0, gatt_subscribe_ret = 0,
             gatt_subscribe_ret2 = 0, hid_write_ret = 0\<rparr>"

text \<open>Stacks that refuse to start the scan, to create the connection, and to
  subscribe (\<open>-5\<close> is \<open>-EIO\<close>, \<open>-22\<close> is \<open>-EINVAL\<close>).\<close>

definition env_scan_fail :: env where
  "env_scan_fail = env_ok\<lparr>scan_start_ret := - 5\<rparr>"

definition env_create_fail :: env where
  "env_create_fail = env_ok\<lparr>conn_create_ret := - 5\<rparr>"

definition env_subscribe_fail :: env where
  "env_subscribe_fail = env_ok\<lparr>gatt_subscribe_ret := - 22, gatt_subscribe_ret2 := - 22\<rparr>"

text \<open>The variables after \<open>main\<close> has bound the HID device and the host has configured
  USB; the same with a pairing loaded; the same with a link up.\<close>

definition ready_state :: state where
  "ready_state = init_state\<lparr>usb_configured := True, hid_dev := Some 0\<rparr>"

definition paired_state :: state where
  "paired_state = ready_state\<lparr>keyboard_addr := kbd_addr, keyboard_paired := True\<rparr>"

definition linked_state :: state where
  "linked_state = paired_state\<lparr>current_conn := Some kbd_conn\<rparr>"

text \<open>A boot-protocol report (left shift and the key A), a payload that is too short,
  the HID service declaration at handle 15, the report characteristic at handle 18 with
  its value at handle 19, and the advertised name of the keyboard.\<close>

definition report_a :: "u8 list" where
  "report_a = [0x02, 0x00, 0x04, 0x00, 0x00, 0x00, 0x00, 0x00]"

definition short_payload :: "u8 list" where
  "short_payload = [0x02, 0x00, 0x04]"

definition hid_service_attr :: bt_gatt_attr where
  "hid_service_attr = \<lparr>attr_handle = 15, attr_value_handle = 0\<rparr>"

definition report_chrc_attr :: bt_gatt_attr where
  "report_chrc_attr = \<lparr>attr_handle = 18, attr_value_handle = 19\<rparr>"

text \<open>What may follow a failed subscription while the link is up: a notification, a
  single press with its work item, a round of the main loop, and a terminal discovery
  callback.\<close>

definition later_calls :: "call list" where
  "later_calls =
     [Notify env_ok kbd_conn (Some report_a) 8, Button_pressed 5000, Button_work env_ok,
      Main_loop, Discover env_ok kbd_conn None]"

text \<open>A second peripheral that advertises an accepted name, a connection to it, and a
  stack that hands out that connection.\<close>

definition other_addr :: bt_addr_le where
  "other_addr = \<lparr>addr_type = 1, addr_val = [0xc0, 0x66, 0x77, 0x88, 0x99, 0xaa]\<rparr>"

definition other_conn :: bt_conn where
  "other_conn = \<lparr>conn_id = 2, conn_dst = other_addr\<rparr>"

definition env_other :: env where
  "env_other = env_ok\<lparr>conn_create_out := other_conn\<rparr>"

text \<open>A link up and a double press flagged by the interrupt handler.\<close>

definition unpair_state :: state where
  "unpair_state = linked_state\<lparr>button_double_press := True\<rparr>"

definition adv_name :: bt_data where
  "adv_name = \<lparr>data_type = BT_DATA_NAME_COMPLETE, data_len = 10, data_bytes = ''Adv360 Pro''\<rparr>"

section \<open>Properties\<close>

subsection \<open>Traces and fields\<close>

lemma trace_emit: "trace (emit evs s) = trace s @ evs"
  by (simp add: emit_def)

lemma emitted_append: "trace s' = trace s @ evs \<Longrightarrow> emitted s s' = evs"
  by (simp add: emitted_def)

lemma emitted_self: "emitted s s = []"
  by (simp add: emitted_def)

lemma replicate_8: "replicate 8 x = [x, x, x, x, x, x, x, x]"
  by (simp add: numeral_eq_Suc)

lemma trace_start_scan:
  "trace (start_scan e s) = trace s @ (if current_conn s = None then [Scan_start] else [])"
  by (simp add: start_scan_def emit_def)

lemma current_conn_start_scan: "current_conn (start_scan e s) = current_conn s"
  by (simp add: start_scan_def emit_def)

lemma trace_attempt_reconnect:
  "trace (attempt_reconnect e s) = trace s @
     (if current_conn s \<noteq> None then []
      else if \<not> keyboard_paired s then [Scan_start]
      else if conn_create_ret e \<noteq> 0 then [Conn_create (keyboard_addr s), Scan_start]
      else [Conn_create (keyboard_addr s), Conn_unref (conn_create_out e)])"
  by (simp add: attempt_reconnect_def start_scan_def emit_def Let_def)

lemma current_conn_attempt_reconnect: "current_conn (attempt_reconnect e s) = current_conn s"
  by (simp add: attempt_reconnect_def start_scan_def emit_def Let_def)

lemma release_conn_simps:
  "current_conn (release_conn s) = None"
  "trace (release_conn s) = trace s @ (case current_conn s of None \<Rightarrow> [] | Some c \<Rightarrow> [Conn_unref c])"
  "keyboard_paired (release_conn s) = keyboard_paired s"
  "keyboard_addr (release_conn s) = keyboard_addr s"
  "usb_configured (release_conn s) = usb_configured s"
  "hid_dev (release_conn s) = hid_dev s"
  by (simp_all add: release_conn_def emit_def split: option.split)

lemma discover_func_service_attr:
  assumes "d_type (discover_params s) = BT_GATT_DISCOVER_PRIMARY"
    and "d_uuid (discover_params s) = Some BT_UUID_HIDS_VAL"
  shows "discover_func e conn (Some a) s =
           Some (BT_GATT_ITER_CONTINUE, s\<lparr>service_found := True, service_handle := attr_handle a\<rparr>)"
  using assms by (simp add: discover_func_def)

lemma discover_func_service_end:
  assumes "d_type (discover_params s) = BT_GATT_DISCOVER_PRIMARY"
  shows "discover_func e conn None s =
           Some (BT_GATT_ITER_STOP,
             if service_found s
             then s\<lparr>service_found := False,
                    discover_params := char_phase_params (service_handle s),
                    trace := trace s @ [Gatt_discover conn (char_phase_params (service_handle s))]\<rparr>
             else s\<lparr>discover_params := zero_discover_params\<rparr>)"
  using assms
  by (simp add: discover_func_def char_phase_params_def zero_discover_params_def emit_def Let_def)

lemma deliver_service_phase:
  assumes "d_type (discover_params s) = BT_GATT_DISCOVER_PRIMARY"
    and "d_uuid (discover_params s) = Some BT_UUID_HIDS_VAL"
  shows "deliver e conn (as @ [a]) s =
           Some (s\<lparr>service_found := False, service_handle := attr_handle a,
                   discover_params := char_phase_params (attr_handle a),
                   trace := trace s @ [Gatt_discover conn (char_phase_params (attr_handle a))]\<rparr>)"
  using assms
proof (induction as arbitrary: s)
  case Nil
  then show ?case
    by (simp add: discover_func_service_attr discover_func_service_end)
next
  case (Cons x xs)
  let ?s1 = "s\<lparr>service_found := True, service_handle := attr_handle x\<rparr>"
  have "d_type (discover_params ?s1) = BT_GATT_DISCOVER_PRIMARY"
    and "d_uuid (discover_params ?s1) = Some BT_UUID_HIDS_VAL"
    using Cons.prems by simp_all
  from Cons.IH [OF this] show ?case
    using Cons.prems by (simp add: discover_func_service_attr)
qed

lemma discover_func_char_attr:
  assumes "d_type (discover_params s) = BT_GATT_DISCOVER_CHARACTERISTIC"
    and "d_uuid (discover_params s) = Some BT_UUID_HIDS_REPORT_VAL"
  shows "discover_func e conn (Some a) s =
           Some (BT_GATT_ITER_STOP,
                 subscribe_to_reports e conn (attr_value_handle a)
                   (s\<lparr>discover_params := zero_discover_params\<rparr>))"
  using assms by (simp add: discover_func_def Let_def)

lemma subscribe_first_call:
  "\<exists>rest. trace (subscribe_to_reports e conn vh s) = trace s @
      Gatt_subscribe conn
        \<lparr>s_notify = True, s_value = BT_GATT_CCC_NOTIFY, s_value_handle = vh,
         s_ccc_handle = vh + 1, s_end_handle = 0\<rparr> # rest"
  by (simp add: subscribe_to_reports_def zero_subscribe_params_def emit_def Let_def)

lemma subscribe_value_handle:
  "s_value_handle (subscribe_params (subscribe_to_reports e conn vh s)) = vh"
  by (simp add: subscribe_to_reports_def zero_subscribe_params_def emit_def Let_def)

lemma trace_main_loop_iter:
  "trace (main_loop_iter s) = trace s @ Sleep 1000 # (if current_conn s = None then [Led_toggle] else [])"
  by (simp add: main_loop_iter_def emit_def Let_def)

lemma trace_main_loop:
  "\<exists>evs. trace ((main_loop_iter ^^ n) s) = trace s @ evs \<and> set evs \<subseteq> {Sleep 1000, Led_toggle}"
  proof (induction n)
    case 0
    then show ?case by simp
  next
    case (Suc n)
    then obtain evs where t: "trace ((main_loop_iter ^^ n) s) = trace s @ evs"
      and e: "set evs \<subseteq> {Sleep 1000, Led_toggle}" by blast
    have "trace ((main_loop_iter ^^ Suc n) s) = trace s @ evs @ Sleep 1000 #
            (if current_conn ((main_loop_iter ^^ n) s) = None then [Led_toggle] else [])"
      by (simp add: trace_main_loop_iter t)
    with e show ?case by (intro exI[of _ "evs @ Sleep 1000 #
            (if current_conn ((main_loop_iter ^^ n) s) = None then [Led_toggle] else [])"]) auto
  qed

lemma button_pressed_simps:
  "button_press_time (button_pressed now s) = now"
  "button_double_press (button_pressed now s) = (now - button_press_time s < 500)"
  "current_conn (button_pressed now s) = current_conn s"
  "keyboard_paired (button_pressed now s) = keyboard_paired s"
  "keyboard_addr (button_pressed now s) = keyboard_addr s"
  "trace (button_pressed now s) = trace s @ [Work_submit]"
  by (simp_all add: button_pressed_def emit_def Let_def)

lemma gap_below_500:
  fixes t1 t2 :: u64
  assumes "t1 \<le> t2"
  shows "(t2 - t1 < 500) = (unat t2 - unat t1 < 500)"
proof -
  have "unat (t2 - t1) = unat t2 - unat t1"
    using assms by (simp add: unat_sub)
  then show ?thesis
    by (simp add: word_less_nat_alt)
qed

lemma unpair_branch_simps:
  "current_conn (unpair_branch e s) = None"
  "keyboard_paired (unpair_branch e s) = False"
  "keyboard_addr (unpair_branch e s) = zero_addr"
  "button_double_press (unpair_branch e s) = False"
  "button_press_time (unpair_branch e s) = button_press_time s"
  "trace (unpair_branch e s) = trace s @
     (case current_conn s of None \<Rightarrow> []
      | Some c \<Rightarrow> [Conn_disconnect c BT_HCI_ERR_REMOTE_USER_TERM_CONN, Conn_unref c])
     @ [Settings_save None, Sleep 100, Scan_start]"
  by (simp_all add: unpair_branch_def start_scan_def emit_def Let_def split: option.split)

lemma button_press_time_attempt_reconnect:
  "button_press_time (attempt_reconnect e s) = button_press_time s"
  by (simp add: attempt_reconnect_def start_scan_def emit_def Let_def)

lemma keyboard_paired_attempt_reconnect:
  "keyboard_paired (attempt_reconnect e s) = keyboard_paired s"
  by (simp add: attempt_reconnect_def start_scan_def emit_def Let_def)

lemma button_work_handler_time:
  "button_press_time (button_work_handler e s) = button_press_time s"
  by (simp add: button_work_handler_def unpair_branch_simps button_press_time_attempt_reconnect Let_def)

lemma Settings_save_notin_attempt_reconnect:
  "Settings_save None \<notin> set (emitted s (attempt_reconnect e s))"
  by (simp add: emitted_def trace_attempt_reconnect)

subsection \<open>The discovery variables and the subscribe calls across the handlers\<close>

lemma discovery_idle_disc_vars: "discovery_idle s \<longleftrightarrow> disc_vars s = (zero_discover_params, False)"
  by (auto simp: discovery_idle_def disc_vars_def)

lemma disc_vars_emit: "disc_vars (emit evs s) = disc_vars s"
  by (simp add: disc_vars_def emit_def)

lemma disc_vars_start_scan: "disc_vars (start_scan e s) = disc_vars s"
  by (simp add: start_scan_def disc_vars_emit Let_def)

lemma disc_vars_attempt_reconnect: "disc_vars (attempt_reconnect e s) = disc_vars s"
  by (simp add: attempt_reconnect_def disc_vars_start_scan disc_vars_emit Let_def)

lemma disc_vars_release_conn: "disc_vars (release_conn s) = disc_vars s"
  by (simp add: release_conn_def disc_vars_def emit_def split: option.split)

lemma disc_vars_hid_report: "disc_vars (s\<lparr>hid_report := r\<rparr>) = disc_vars s"
  by (simp add: disc_vars_def)

lemma disc_vars_disconnected: "disc_vars (disconnected e conn reason s) = disc_vars s"
  by (simp add: disconnected_def Let_def disc_vars_start_scan disc_vars_attempt_reconnect
      disc_vars_emit disc_vars_release_conn disc_vars_hid_report)

lemma disc_vars_notify_func: "disc_vars (snd (notify_func e conn data len s)) = disc_vars s"
  by (simp add: notify_func_def Let_def disc_vars_def emit_def split: option.split)

lemma disc_vars_device_found: "disc_vars (snd (device_found e d addr s)) = disc_vars s"
  by (simp add: device_found_def Let_def disc_vars_start_scan disc_vars_emit)

lemma disc_vars_button_pressed: "disc_vars (button_pressed now s) = disc_vars s"
  by (simp add: button_pressed_def Let_def disc_vars_def emit_def)

lemma disc_vars_unpair_branch: "disc_vars (unpair_branch e s) = disc_vars s"
  by (simp add: unpair_branch_def start_scan_def Let_def disc_vars_def emit_def
      split: option.split)

lemma disc_vars_button_work_handler: "disc_vars (button_work_handler e s) = disc_vars s"
  by (simp add: button_work_handler_def Let_def disc_vars_unpair_branch
      disc_vars_attempt_reconnect)

lemma disc_vars_main_loop_iter: "disc_vars (main_loop_iter s) = disc_vars s"
  by (simp add: main_loop_iter_def Let_def disc_vars_emit)

lemma disc_vars_subscribe_to_reports: "disc_vars (subscribe_to_reports e conn vh s) = disc_vars s"
  by (simp add: subscribe_to_reports_def Let_def disc_vars_def emit_def)

lemma trace_disconnected:
  "trace (disconnected e conn reason s) = trace s
     @ (case current_conn s of None \<Rightarrow> [] | Some c \<Rightarrow> [Conn_unref c])
     @ (if usb_configured s \<and> hid_dev s \<noteq> None then [Hid_write (replicate 8 0)] else [])
     @ [Sleep 1000]
     @ (if \<not> keyboard_paired s then [Scan_start]
        else if conn_create_ret e \<noteq> 0 then [Conn_create (keyboard_addr s), Scan_start]
        else [Conn_create (keyboard_addr s), Conn_unref (conn_create_out e)])"
  by (simp add: disconnected_def Let_def trace_start_scan trace_attempt_reconnect
      release_conn_simps emit_def)

lemma subs_emit:
  "filter is_subscribe (trace (emit evs s)) = filter is_subscribe (trace s) @ filter is_subscribe evs"
  by (simp add: emit_def)

lemma subs_start_scan: "filter is_subscribe (trace (start_scan e s)) = filter is_subscribe (trace s)"
  by (simp add: trace_start_scan)

lemma subs_attempt_reconnect:
  "filter is_subscribe (trace (attempt_reconnect e s)) = filter is_subscribe (trace s)"
  by (simp add: trace_attempt_reconnect)

lemma subs_disconnected:
  "filter is_subscribe (trace (disconnected e conn reason s)) = filter is_subscribe (trace s)"
  by (simp add: trace_disconnected split: option.split)

lemma subs_notify_func:
  "filter is_subscribe (trace (snd (notify_func e conn data len s))) = filter is_subscribe (trace s)"
  by (simp add: notify_func_def Let_def emit_def split: option.split)

lemma subs_device_found:
  "filter is_subscribe (trace (snd (device_found e d addr s))) = filter is_subscribe (trace s)"
  by (simp add: device_found_def Let_def subs_start_scan subs_emit)

lemma subs_button_pressed:
  "filter is_subscribe (trace (button_pressed now s)) = filter is_subscribe (trace s)"
  by (simp add: button_pressed_simps)

lemma subs_button_work_handler:
  "filter is_subscribe (trace (button_work_handler e s)) = filter is_subscribe (trace s)"
  by (simp add: button_work_handler_def Let_def unpair_branch_simps subs_attempt_reconnect
      split: option.split)

lemma subs_main_loop_iter:
  "filter is_subscribe (trace (main_loop_iter s)) = filter is_subscribe (trace s)"
  by (simp add: trace_main_loop_iter)

lemma idle_discover_func:
  assumes "discovery_idle s" and "discover_func e conn attr s = Some (r, s')"
  shows "discovery_idle s' \<and> trace s' = trace s"
  using assms
  by (cases attr)
     (auto simp: discovery_idle_def discover_func_def zero_discover_params_def)

lemma exec_idle:
  assumes "discovery_idle s" and "\<not> is_connected c" and "exec c s = Some s'"
  shows "discovery_idle s' \<and> filter is_subscribe (trace s') = filter is_subscribe (trace s)"
proof (cases c)
  case (Connected e conn err)
  with assms(2) show ?thesis by simp
next
  case (Disconnected e conn reason)
  with assms show ?thesis
    by (auto simp: discovery_idle_disc_vars disc_vars_disconnected subs_disconnected)
next
  case (Notify e conn data len)
  with assms show ?thesis
    by (auto simp: discovery_idle_disc_vars disc_vars_notify_func subs_notify_func)
next
  case (Discover e conn attr)
  with assms obtain r where "discover_func e conn attr s = Some (r, s')"
    by auto
  from idle_discover_func [OF assms(1) this] show ?thesis by simp
next
  case (Device_found e d addr)
  with assms show ?thesis
    by (auto simp: discovery_idle_disc_vars disc_vars_device_found subs_device_found)
next
  case (Button_pressed now)
  with assms show ?thesis
    by (auto simp: discovery_idle_disc_vars disc_vars_button_pressed subs_button_pressed)
next
  case (Button_work e)
  with assms show ?thesis
    by (auto simp: discovery_idle_disc_vars disc_vars_button_work_handler subs_button_work_handler)
next
  case Main_loop
  with assms show ?thesis
    by (auto simp: discovery_idle_disc_vars disc_vars_main_loop_iter subs_main_loop_iter)
qed

lemma run_idle:
  assumes "discovery_idle s" and "\<forall>c \<in> set cs. \<not> is_connected c" and "run cs s = Some s'"
  shows "discovery_idle s' \<and> filter is_subscribe (trace s') = filter is_subscribe (trace s)"
  using assms
proof (induction cs arbitrary: s)
  case Nil
  then show ?case by simp
next
  case (Cons c cs)
  from Cons.prems(3) obtain s1 where e: "exec c s = Some s1" and r: "run cs s1 = Some s'"
    by (auto split: option.splits)
  from Cons.prems have nc: "\<not> is_connected c" and ncs: "\<forall>c \<in> set cs. \<not> is_connected c"
    by simp_all
  from exec_idle [OF Cons.prems(1) nc e] have i1: "discovery_idle s1"
    and t1: "filter is_subscribe (trace s1) = filter is_subscribe (trace s)"
    by simp_all
  from Cons.IH [OF i1 ncs r] t1 show ?case by simp
qed

subsection \<open>The terminal discovery callback never faults\<close>

lemma exec_Discover_None: "\<exists>s'. exec (Discover e conn None) s = Some s'"
  by (simp add: discover_func_def Let_def)

subsection \<open>Report relay\<close>

text \<open>C1. With USB configured and the HID device bound, a notification that carries a
  payload of at least 8 bytes copies its first 8 bytes into \<open>hid_report\<close> and writes
  exactly those bytes to the HID endpoint, once; a payload of exactly 8 bytes is written
  as it is. A payload shorter than 8 bytes changes nothing: the buffer keeps its content
  and nothing is written. The length the stack reports is the length of the payload.\<close>

theorem notify_func_report:
  assumes "usb_configured s" and "hid_dev s \<noteq> None" and "length d = unat len"
  shows "(8 \<le> length d \<longrightarrow>
            hid_report (snd (notify_func e conn (Some d) len s)) = take 8 d
            \<and> emitted s (snd (notify_func e conn (Some d) len s)) = [Hid_write (take 8 d)])
       \<and> (length d = 8 \<longrightarrow>
            emitted s (snd (notify_func e conn (Some d) len s)) = [Hid_write d])
       \<and> (length d < 8 \<longrightarrow> snd (notify_func e conn (Some d) len s) = s)"
proof -
  have le: "(8 \<le> len) = (8 \<le> length d)"
    using assms(3) by (simp add: word_le_nat_alt)
  show ?thesis
    using assms(1,2) by (auto simp: notify_func_def le emit_def emitted_def Let_def)
qed

theorem notify_func_report_witness:
  "usb_configured ready_state \<and> hid_dev ready_state \<noteq> None
   \<and> length report_a = unat (8 :: u16)
   \<and> hid_report (snd (notify_func env_ok kbd_conn (Some report_a) 8 ready_state)) = report_a
   \<and> emitted ready_state (snd (notify_func env_ok kbd_conn (Some report_a) 8 ready_state))
       = [Hid_write [0x02, 0x00, 0x04, 0x00, 0x00, 0x00, 0x00, 0x00]]
   \<and> length short_payload = unat (3 :: u16)
   \<and> snd (notify_func env_ok kbd_conn (Some short_payload) 3 ready_state) = ready_state"
proof -
  have h: "usb_configured ready_state" "hid_dev ready_state \<noteq> None"
    by (simp_all add: ready_state_def)
  have l8: "length report_a = unat (8 :: u16)"
    by (simp add: report_a_def)
  have l3: "length short_payload = unat (3 :: u16)"
    by (simp add: short_payload_def)
  show ?thesis
    using h l8 l3
      notify_func_report [OF h l8, of env_ok kbd_conn]
      notify_func_report [OF h l3, of env_ok kbd_conn]
    by (simp add: report_a_def short_payload_def)
qed

text \<open>C6. \<open>subscribe_to_reports\<close> first calls \<open>bt_gatt_subscribe\<close> with the CCC handle
  set to the value handle plus one. When that call returns 0 or \<open>-EALREADY\<close> it is the
  only call. On any other result there is exactly one more call, with the CCC handle 0
  (auto-discovery) and the end handle set to the value handle plus five; whatever that
  second call returns, no third call follows. Nor does any later invocation subscribe:
  from the state in which \<open>discover_func\<close> makes the call (discovery variables cleared),
  any sequence of entry points that holds no \<open>connected\<close> callback leaves the subscribe
  calls in the trace as they were when \<open>subscribe_to_reports\<close> returned.\<close>

theorem subscribe_retry_once:
  "emitted s (subscribe_to_reports e conn vh s) =
     (if gatt_subscribe_ret e = 0 \<or> gatt_subscribe_ret e = - EALREADY
      then [Gatt_subscribe conn
              \<lparr>s_notify = True, s_value = BT_GATT_CCC_NOTIFY, s_value_handle = vh,
               s_ccc_handle = vh + 1, s_end_handle = 0\<rparr>]
      else [Gatt_subscribe conn
              \<lparr>s_notify = True, s_value = BT_GATT_CCC_NOTIFY, s_value_handle = vh,
               s_ccc_handle = vh + 1, s_end_handle = 0\<rparr>,
            Gatt_subscribe conn
              \<lparr>s_notify = True, s_value = BT_GATT_CCC_NOTIFY, s_value_handle = vh,
               s_ccc_handle = 0, s_end_handle = vh + 5\<rparr>])
   \<and> (discovery_idle s \<and> (\<forall>c \<in> set cs. \<not> is_connected c)
        \<and> run cs (subscribe_to_reports e conn vh s) = Some s' \<longrightarrow>
        filter is_subscribe (trace s')
          = filter is_subscribe (trace (subscribe_to_reports e conn vh s)))"
proof (intro conjI impI)
  show "emitted s (subscribe_to_reports e conn vh s) =
     (if gatt_subscribe_ret e = 0 \<or> gatt_subscribe_ret e = - EALREADY
      then [Gatt_subscribe conn
              \<lparr>s_notify = True, s_value = BT_GATT_CCC_NOTIFY, s_value_handle = vh,
               s_ccc_handle = vh + 1, s_end_handle = 0\<rparr>]
      else [Gatt_subscribe conn
              \<lparr>s_notify = True, s_value = BT_GATT_CCC_NOTIFY, s_value_handle = vh,
               s_ccc_handle = vh + 1, s_end_handle = 0\<rparr>,
            Gatt_subscribe conn
              \<lparr>s_notify = True, s_value = BT_GATT_CCC_NOTIFY, s_value_handle = vh,
               s_ccc_handle = 0, s_end_handle = vh + 5\<rparr>])"
    by (simp add: subscribe_to_reports_def zero_subscribe_params_def emit_def emitted_def Let_def)
next
  assume h: "discovery_idle s \<and> (\<forall>c \<in> set cs. \<not> is_connected c)
        \<and> run cs (subscribe_to_reports e conn vh s) = Some s'"
  then have "discovery_idle (subscribe_to_reports e conn vh s)"
    by (simp add: discovery_idle_disc_vars disc_vars_subscribe_to_reports)
  with h run_idle [of "subscribe_to_reports e conn vh s" cs s']
  show "filter is_subscribe (trace s')
          = filter is_subscribe (trace (subscribe_to_reports e conn vh s))"
    by blast
qed

theorem subscribe_retry_once_witness:
  "emitted linked_state (subscribe_to_reports env_subscribe_fail kbd_conn 19 linked_state) =
     [Gatt_subscribe kbd_conn
        \<lparr>s_notify = True, s_value = 1, s_value_handle = 19, s_ccc_handle = 20,
         s_end_handle = 0\<rparr>,
      Gatt_subscribe kbd_conn
        \<lparr>s_notify = True, s_value = 1, s_value_handle = 19, s_ccc_handle = 0,
         s_end_handle = 24\<rparr>]
   \<and> discovery_idle linked_state
   \<and> (\<exists>s'. run later_calls
               (subscribe_to_reports env_subscribe_fail kbd_conn 19 linked_state) = Some s'
          \<and> filter is_subscribe (trace s')
              = filter is_subscribe
                  (trace (subscribe_to_reports env_subscribe_fail kbd_conn 19 linked_state)))"
proof -
  let ?s1 = "subscribe_to_reports env_subscribe_fail kbd_conn 19 linked_state"
  have r: "gatt_subscribe_ret env_subscribe_fail \<noteq> 0"
    "gatt_subscribe_ret env_subscribe_fail \<noteq> - EALREADY"
    by (simp_all add: env_subscribe_fail_def env_ok_def EALREADY_def)
  have i: "discovery_idle linked_state"
    by (simp add: discovery_idle_def linked_state_def paired_state_def ready_state_def
        init_state_def)
  have n: "\<forall>c \<in> set later_calls. \<not> is_connected c"
    by (simp add: later_calls_def)
  obtain s' where "exec (Discover env_ok kbd_conn None)
      (main_loop_iter (button_work_handler env_ok (button_pressed 5000
         (snd (notify_func env_ok kbd_conn (Some report_a) 8 ?s1))))) = Some s'"
    using exec_Discover_None by blast
  then have x: "run later_calls ?s1 = Some s'"
    by (simp add: later_calls_def del: exec.simps(4))
  have "emitted linked_state ?s1 =
     [Gatt_subscribe kbd_conn
        \<lparr>s_notify = True, s_value = 1, s_value_handle = 19, s_ccc_handle = 20,
         s_end_handle = 0\<rparr>,
      Gatt_subscribe kbd_conn
        \<lparr>s_notify = True, s_value = 1, s_value_handle = 19, s_ccc_handle = 0,
         s_end_handle = 24\<rparr>]"
    using r subscribe_retry_once [of linked_state env_subscribe_fail kbd_conn 19]
    by (simp add: BT_GATT_CCC_NOTIFY_def)
  moreover have "filter is_subscribe (trace s') = filter is_subscribe (trace ?s1)"
    using i n x subscribe_retry_once [of linked_state env_subscribe_fail kbd_conn 19
        later_calls s']
    by blast
  ultimately show ?thesis
    using i x by blast
qed

subsection \<open>GATT discovery\<close>

text \<open>C5. Service phase (\<open>discover_params\<close> as \<open>connected\<close> sets it: primary
  discovery of the HID service UUID): each attribute reported records its handle and the
  callback asks for more; only the terminal callback, after the attributes
  \<open>as @ [a]\<close> have been reported, starts the characteristic discovery, from the
  handle of the last match to 0xffff, and a terminal callback with no match on record
  starts nothing. Characteristic phase: the first attribute reported stops the iteration
  (the attributes \<open>rest\<close> behind it are never seen) and subscribes to its value
  handle.\<close>

theorem discovery_two_phases:
  "(d_type (discover_params s) = BT_GATT_DISCOVER_PRIMARY
      \<and> d_uuid (discover_params s) = Some BT_UUID_HIDS_VAL \<longrightarrow>
      discover_func e conn (Some a) s =
        Some (BT_GATT_ITER_CONTINUE, s\<lparr>service_found := True, service_handle := attr_handle a\<rparr>)
      \<and> deliver e conn (as @ [a]) s =
        Some (s\<lparr>service_found := False, service_handle := attr_handle a,
                discover_params :=
                  \<lparr>d_uuid = Some BT_UUID_HIDS_REPORT_VAL, d_func = True,
                   d_start_handle = attr_handle a, d_end_handle = 0xffff,
                   d_type = BT_GATT_DISCOVER_CHARACTERISTIC\<rparr>,
                trace := trace s @
                  [Gatt_discover conn
                     \<lparr>d_uuid = Some BT_UUID_HIDS_REPORT_VAL, d_func = True,
                      d_start_handle = attr_handle a, d_end_handle = 0xffff,
                      d_type = BT_GATT_DISCOVER_CHARACTERISTIC\<rparr>]\<rparr>)
      \<and> (\<not> service_found s \<longrightarrow>
           deliver e conn [] s = Some (s\<lparr>discover_params := zero_discover_params\<rparr>)))
   \<and> (d_type (discover_params s) = BT_GATT_DISCOVER_CHARACTERISTIC
      \<and> d_uuid (discover_params s) = Some BT_UUID_HIDS_REPORT_VAL \<longrightarrow>
      (\<exists>s' evs. discover_func e conn (Some a) s = Some (BT_GATT_ITER_STOP, s')
         \<and> deliver e conn (a # rest) s = Some s'
         \<and> s_value_handle (subscribe_params s') = attr_value_handle a
         \<and> emitted s s' =
             Gatt_subscribe conn
               \<lparr>s_notify = True, s_value = BT_GATT_CCC_NOTIFY,
                s_value_handle = attr_value_handle a,
                s_ccc_handle = attr_value_handle a + 1, s_end_handle = 0\<rparr> # evs))"
proof (intro conjI impI)
  assume h: "d_type (discover_params s) = BT_GATT_DISCOVER_PRIMARY
      \<and> d_uuid (discover_params s) = Some BT_UUID_HIDS_VAL"
  show "discover_func e conn (Some a) s =
        Some (BT_GATT_ITER_CONTINUE, s\<lparr>service_found := True, service_handle := attr_handle a\<rparr>)"
    using h by (simp add: discover_func_service_attr)
  show "deliver e conn (as @ [a]) s =
        Some (s\<lparr>service_found := False, service_handle := attr_handle a,
                discover_params :=
                  \<lparr>d_uuid = Some BT_UUID_HIDS_REPORT_VAL, d_func = True,
                   d_start_handle = attr_handle a, d_end_handle = 0xffff,
                   d_type = BT_GATT_DISCOVER_CHARACTERISTIC\<rparr>,
                trace := trace s @
                  [Gatt_discover conn
                     \<lparr>d_uuid = Some BT_UUID_HIDS_REPORT_VAL, d_func = True,
                      d_start_handle = attr_handle a, d_end_handle = 0xffff,
                      d_type = BT_GATT_DISCOVER_CHARACTERISTIC\<rparr>]\<rparr>)"
    using h deliver_service_phase [of s e conn as a] by (simp add: char_phase_params_def)
  show "deliver e conn [] s = Some (s\<lparr>discover_params := zero_discover_params\<rparr>)"
    if "\<not> service_found s"
    using h that by (simp add: discover_func_service_end)
next
  assume h: "d_type (discover_params s) = BT_GATT_DISCOVER_CHARACTERISTIC
      \<and> d_uuid (discover_params s) = Some BT_UUID_HIDS_REPORT_VAL"
  let ?s' = "subscribe_to_reports e conn (attr_value_handle a)
               (s\<lparr>discover_params := zero_discover_params\<rparr>)"
  have f: "discover_func e conn (Some a) s = Some (BT_GATT_ITER_STOP, ?s')"
    using h by (simp add: discover_func_char_attr)
  obtain evs where t: "trace ?s' = trace s @
      Gatt_subscribe conn
        \<lparr>s_notify = True, s_value = BT_GATT_CCC_NOTIFY, s_value_handle = attr_value_handle a,
         s_ccc_handle = attr_value_handle a + 1, s_end_handle = 0\<rparr> # evs"
    using subscribe_first_call [of e conn "attr_value_handle a"
        "s\<lparr>discover_params := zero_discover_params\<rparr>"] by auto
  have "deliver e conn (a # rest) s = Some ?s'"
    by (simp add: f)
  moreover have "s_value_handle (subscribe_params ?s') = attr_value_handle a"
    by (rule subscribe_value_handle)
  moreover have "emitted s ?s' = Gatt_subscribe conn
        \<lparr>s_notify = True, s_value = BT_GATT_CCC_NOTIFY, s_value_handle = attr_value_handle a,
         s_ccc_handle = attr_value_handle a + 1, s_end_handle = 0\<rparr> # evs"
    by (rule emitted_append) (rule t)
  ultimately show "\<exists>s' evs. discover_func e conn (Some a) s = Some (BT_GATT_ITER_STOP, s')
         \<and> deliver e conn (a # rest) s = Some s'
         \<and> s_value_handle (subscribe_params s') = attr_value_handle a
         \<and> emitted s s' =
             Gatt_subscribe conn
               \<lparr>s_notify = True, s_value = BT_GATT_CCC_NOTIFY,
                s_value_handle = attr_value_handle a,
                s_ccc_handle = attr_value_handle a + 1, s_end_handle = 0\<rparr> # evs"
    using f by blast
qed

theorem discovery_two_phases_witness:
  "deliver env_ok kbd_conn [] (connected env_ok kbd_conn 0 ready_state)
     = Some ((connected env_ok kbd_conn 0 ready_state)\<lparr>discover_params := zero_discover_params\<rparr>)
   \<and> (\<exists>s1 s2.
     deliver env_ok kbd_conn [hid_service_attr] (connected env_ok kbd_conn 0 ready_state) = Some s1
     \<and> d_type (discover_params s1) = BT_GATT_DISCOVER_CHARACTERISTIC
     \<and> d_start_handle (discover_params s1) = 15
     \<and> d_end_handle (discover_params s1) = 0xffff
     \<and> deliver env_ok kbd_conn [report_chrc_attr] s1 = Some s2
     \<and> s_value_handle (subscribe_params s2) = 19
     \<and> hd (emitted s1 s2) =
         Gatt_subscribe kbd_conn
           \<lparr>s_notify = True, s_value = 1, s_value_handle = 19, s_ccc_handle = 20,
            s_end_handle = 0\<rparr>)"
proof -
  let ?s0 = "connected env_ok kbd_conn 0 ready_state"
  let ?s1 = "?s0\<lparr>service_found := False, service_handle := 15,
                  discover_params := char_phase_params 15,
                  trace := trace ?s0 @ [Gatt_discover kbd_conn (char_phase_params 15)]\<rparr>"
  have p0: "d_type (discover_params ?s0) = BT_GATT_DISCOVER_PRIMARY
      \<and> d_uuid (discover_params ?s0) = Some BT_UUID_HIDS_VAL"
    by (simp add: connected_def emit_def Let_def)
  have "deliver env_ok kbd_conn ([] @ [hid_service_attr]) ?s0 =
      Some (?s0\<lparr>service_found := False, service_handle := attr_handle hid_service_attr,
                discover_params :=
                  \<lparr>d_uuid = Some BT_UUID_HIDS_REPORT_VAL, d_func = True,
                   d_start_handle = attr_handle hid_service_attr, d_end_handle = 0xffff,
                   d_type = BT_GATT_DISCOVER_CHARACTERISTIC\<rparr>,
                trace := trace ?s0 @
                  [Gatt_discover kbd_conn
                     \<lparr>d_uuid = Some BT_UUID_HIDS_REPORT_VAL, d_func = True,
                      d_start_handle = attr_handle hid_service_attr, d_end_handle = 0xffff,
                      d_type = BT_GATT_DISCOVER_CHARACTERISTIC\<rparr>]\<rparr>)"
    using p0 discovery_two_phases [of ?s0 env_ok kbd_conn hid_service_attr "[]"]
    by blast
  moreover have "attr_handle hid_service_attr = 15"
    by (simp add: hid_service_attr_def)
  ultimately have d1: "deliver env_ok kbd_conn [hid_service_attr] ?s0 = Some ?s1"
    by (simp only: append_Nil char_phase_params_def)
  have p1: "d_type (discover_params ?s1) = BT_GATT_DISCOVER_CHARACTERISTIC
      \<and> d_uuid (discover_params ?s1) = Some BT_UUID_HIDS_REPORT_VAL"
    by (simp add: char_phase_params_def)
  obtain s2 evs where d2: "deliver env_ok kbd_conn (report_chrc_attr # []) ?s1 = Some s2"
    and v2': "s_value_handle (subscribe_params s2) = attr_value_handle report_chrc_attr"
    and e2': "emitted ?s1 s2 =
         Gatt_subscribe kbd_conn
           \<lparr>s_notify = True, s_value = BT_GATT_CCC_NOTIFY,
            s_value_handle = attr_value_handle report_chrc_attr,
            s_ccc_handle = attr_value_handle report_chrc_attr + 1, s_end_handle = 0\<rparr> # evs"
    using p1 discovery_two_phases [of ?s1 env_ok kbd_conn report_chrc_attr "[]" "[]"]
    by blast
  have v2: "s_value_handle (subscribe_params s2) = 19"
    using v2' by (simp add: report_chrc_attr_def)
  have e2: "hd (emitted ?s1 s2) =
         Gatt_subscribe kbd_conn
           \<lparr>s_notify = True, s_value = 1, s_value_handle = 19, s_ccc_handle = 20,
            s_end_handle = 0\<rparr>"
    by (simp add: e2' report_chrc_attr_def BT_GATT_CCC_NOTIFY_def)
  have q1: "d_type (discover_params ?s1) = BT_GATT_DISCOVER_CHARACTERISTIC
     \<and> d_start_handle (discover_params ?s1) = 15
     \<and> d_end_handle (discover_params ?s1) = 0xffff"
    by (simp add: char_phase_params_def)
  have n0: "\<not> service_found ?s0"
    by (simp add: connected_def emit_def Let_def ready_state_def init_state_def)
  have d0: "deliver env_ok kbd_conn [] ?s0 = Some (?s0\<lparr>discover_params := zero_discover_params\<rparr>)"
    using p0 n0 discovery_two_phases [of ?s0 env_ok kbd_conn hid_service_attr "[]"]
    by blast
  have "\<exists>s1 s2.
     deliver env_ok kbd_conn [hid_service_attr] ?s0 = Some s1
     \<and> d_type (discover_params s1) = BT_GATT_DISCOVER_CHARACTERISTIC
     \<and> d_start_handle (discover_params s1) = 15
     \<and> d_end_handle (discover_params s1) = 0xffff
     \<and> deliver env_ok kbd_conn [report_chrc_attr] s1 = Some s2
     \<and> s_value_handle (subscribe_params s2) = 19
     \<and> hd (emitted s1 s2) =
         Gatt_subscribe kbd_conn
           \<lparr>s_notify = True, s_value = 1, s_value_handle = 19, s_ccc_handle = 20,
            s_end_handle = 0\<rparr>"
    using d1 q1 d2 v2 e2 by (intro exI [of _ ?s1] exI [of _ s2]) simp
  with d0 show ?thesis by blast
qed

subsection \<open>Connection lifecycle\<close>

text \<open>C3, as amended. While a handle is stored in \<open>current_conn\<close>, \<open>start_scan\<close> and
  \<open>attempt_reconnect\<close> return with every variable and the trace unchanged: they make no
  call at all, so no scan is started and no connection is created through either of
  them. In every state, neither function writes \<open>current_conn\<close>.\<close>

theorem single_link_guard:
  "(current_conn s \<noteq> None \<longrightarrow>
      start_scan e s = s \<and> attempt_reconnect e s = s
      \<and> emitted s (start_scan e s) = [] \<and> emitted s (attempt_reconnect e s) = [])
   \<and> current_conn (start_scan e s) = current_conn s
   \<and> current_conn (attempt_reconnect e s) = current_conn s"
proof -
  have "current_conn s \<noteq> None \<longrightarrow> start_scan e s = s \<and> attempt_reconnect e s = s"
    by (simp add: attempt_reconnect_def start_scan_def Let_def)
  then show ?thesis
    by (simp add: current_conn_start_scan current_conn_attempt_reconnect emitted_self)
qed

theorem single_link_guard_witness:
  "current_conn linked_state \<noteq> None
   \<and> start_scan env_ok linked_state = linked_state
   \<and> attempt_reconnect env_ok linked_state = linked_state
   \<and> emitted linked_state (start_scan env_ok linked_state) = []
   \<and> emitted linked_state (attempt_reconnect env_ok linked_state) = []"
proof -
  have h: "current_conn linked_state \<noteq> None"
    by (simp add: linked_state_def)
  with single_link_guard [of linked_state env_ok] show ?thesis
    by blast
qed

text \<open>The claim as stated fails on the other paths. With the link to the keyboard up,
  an advertisement of a second peripheral with an accepted name makes \<open>device_found\<close>
  call \<open>bt_conn_le_create\<close>: the attempt is not rejected. And a \<open>connected\<close> callback
  without error for that second connection takes a reference to it and stores it over
  the keyboard's handle, whose reference is not released.\<close>

theorem single_link_counterexample:
  "current_conn linked_state = Some kbd_conn
   \<and> emitted linked_state (snd (device_found env_other adv_name other_addr linked_state))
       = [Scan_stop, Sleep 100, Conn_create other_addr, Conn_unref other_conn]
   \<and> current_conn (connected env_ok other_conn 0 linked_state) = Some other_conn
   \<and> emitted linked_state (connected env_ok other_conn 0 linked_state)
       = [Conn_ref other_conn, Settings_save (Some other_addr),
          Gatt_discover other_conn
            \<lparr>d_uuid = Some BT_UUID_HIDS_VAL, d_func = True,
             d_start_handle = BT_ATT_FIRST_ATTRIBUTE_HANDLE,
             d_end_handle = BT_ATT_LAST_ATTRIBUTE_HANDLE,
             d_type = BT_GATT_DISCOVER_PRIMARY\<rparr>]"
proof -
  have n: "strstr (copied_name adv_name) TARGET_DEVICE_NAME"
    by (simp add: copied_name_def adv_name_def TARGET_DEVICE_NAME_def)
  have t: "data_type adv_name = BT_DATA_NAME_COMPLETE"
    by (simp add: adv_name_def)
  have e: "scan_stop_ret env_other = 0" "conn_create_ret env_other = 0"
    "conn_create_out env_other = other_conn"
    by (simp_all add: env_other_def env_ok_def)
  have "emitted linked_state (snd (device_found env_other adv_name other_addr linked_state))
       = [Scan_stop, Sleep 100, Conn_create other_addr, Conn_unref other_conn]"
    by (simp add: device_found_def n t e Let_def emit_def emitted_def)
  moreover have "current_conn linked_state = Some kbd_conn"
    by (simp add: linked_state_def)
  moreover have "current_conn (connected env_ok other_conn 0 linked_state) = Some other_conn"
    by (simp add: connected_def Let_def emit_def)
  moreover have "emitted linked_state (connected env_ok other_conn 0 linked_state)
       = [Conn_ref other_conn, Settings_save (Some other_addr),
          Gatt_discover other_conn
            \<lparr>d_uuid = Some BT_UUID_HIDS_VAL, d_func = True,
             d_start_handle = BT_ATT_FIRST_ATTRIBUTE_HANDLE,
             d_end_handle = BT_ATT_LAST_ATTRIBUTE_HANDLE,
             d_type = BT_GATT_DISCOVER_PRIMARY\<rparr>]"
    by (simp add: connected_def Let_def emit_def emitted_def other_conn_def linked_state_def
        paired_state_def ready_state_def init_state_def zero_discover_params_def)
  ultimately show ?thesis by blast
qed

text \<open>C4. With no handle held, \<open>attempt_reconnect\<close> is \<open>start_scan\<close> when no pairing is
  recorded. With a pairing, its first call is \<open>bt_conn_le_create\<close> on the stored
  address and no scan precedes it; when that call succeeds nothing but the release of
  the returned reference follows, and when it fails \<open>start_scan\<close> follows.\<close>

theorem attempt_reconnect_paths:
  assumes "current_conn s = None"
  shows "(\<not> keyboard_paired s \<longrightarrow>
            attempt_reconnect e s = start_scan e s
            \<and> emitted s (attempt_reconnect e s) = [Scan_start])
       \<and> (keyboard_paired s \<and> conn_create_ret e = 0 \<longrightarrow>
            emitted s (attempt_reconnect e s)
              = [Conn_create (keyboard_addr s), Conn_unref (conn_create_out e)])
       \<and> (keyboard_paired s \<and> conn_create_ret e \<noteq> 0 \<longrightarrow>
            attempt_reconnect e s = start_scan e (emit [Conn_create (keyboard_addr s)] s)
            \<and> emitted s (attempt_reconnect e s)
              = [Conn_create (keyboard_addr s), Scan_start])"
  using assms by (simp add: attempt_reconnect_def start_scan_def emit_def emitted_def Let_def)

theorem attempt_reconnect_paths_witness:
  "current_conn paired_state = None \<and> current_conn ready_state = None
   \<and> emitted ready_state (attempt_reconnect env_ok ready_state) = [Scan_start]
   \<and> emitted paired_state (attempt_reconnect env_ok paired_state)
       = [Conn_create kbd_addr, Conn_unref kbd_conn]
   \<and> emitted paired_state (attempt_reconnect env_create_fail paired_state)
       = [Conn_create kbd_addr, Scan_start]"
proof -
  have p: "current_conn paired_state = None"
    by (simp add: paired_state_def ready_state_def init_state_def)
  have r: "current_conn ready_state = None"
    by (simp add: ready_state_def init_state_def)
  have k: "keyboard_paired paired_state" "\<not> keyboard_paired ready_state"
    "keyboard_addr paired_state = kbd_addr"
    by (simp_all add: paired_state_def ready_state_def init_state_def)
  have e: "conn_create_ret env_ok = 0" "conn_create_out env_ok = kbd_conn"
    "conn_create_ret env_create_fail \<noteq> 0"
    by (simp_all add: env_ok_def env_create_fail_def)
  have "emitted ready_state (attempt_reconnect env_ok ready_state) = [Scan_start]"
    using k attempt_reconnect_paths [OF r, of env_ok] by blast
  moreover have "emitted paired_state (attempt_reconnect env_ok paired_state)
       = [Conn_create (keyboard_addr paired_state), Conn_unref (conn_create_out env_ok)]"
    using k e attempt_reconnect_paths [OF p, of env_ok] by blast
  moreover have "emitted paired_state (attempt_reconnect env_create_fail paired_state)
       = [Conn_create (keyboard_addr paired_state), Scan_start]"
    using k e attempt_reconnect_paths [OF p, of env_create_fail] by blast
  ultimately show ?thesis
    using p r k e by simp
qed

text \<open>C2. For every reason code, \<open>disconnected\<close> leaves no handle held and the report
  buffer all zero. Its calls are, in this order: the release of the handle if one was
  held; one write of eight zero bytes to the HID endpoint if USB is configured and the
  HID device is bound (no other write); one sleep of 1000 ms; then the calls of
  \<open>attempt_reconnect\<close> if a pairing is recorded (a direct connection to the stored
  address, falling back to the scan) and those of \<open>start_scan\<close> otherwise, both run in
  a state with no handle held, so neither returns early.\<close>

theorem disconnected_rearms:
  "current_conn (disconnected e conn reason s) = None
   \<and> hid_report (disconnected e conn reason s) = replicate 8 0
   \<and> emitted s (disconnected e conn reason s) =
       (case current_conn s of None \<Rightarrow> [] | Some c \<Rightarrow> [Conn_unref c])
       @ (if usb_configured s \<and> hid_dev s \<noteq> None then [Hid_write (replicate 8 0)] else [])
       @ [Sleep 1000]
       @ (if \<not> keyboard_paired s then [Scan_start]
          else if conn_create_ret e \<noteq> 0 then [Conn_create (keyboard_addr s), Scan_start]
          else [Conn_create (keyboard_addr s), Conn_unref (conn_create_out e)])
   \<and> (\<exists>s4. current_conn s4 = None
          \<and> keyboard_paired s4 = keyboard_paired s \<and> keyboard_addr s4 = keyboard_addr s
          \<and> disconnected e conn reason s =
              (if keyboard_paired s then attempt_reconnect e s4 else start_scan e s4))"
proof -
  define s2 where "s2 = (release_conn s)\<lparr>hid_report := replicate 8 0\<rparr>"
  define s3 where "s3 = (if usb_configured s2 \<and> hid_dev s2 \<noteq> None
                          then emit [Hid_write (hid_report s2)] s2 else s2)"
  define s4 where "s4 = emit [Sleep 1000] s3"
  have d: "disconnected e conn reason s =
             (if keyboard_paired s4 then attempt_reconnect e s4 else start_scan e s4)"
    unfolding disconnected_def Let_def s4_def s3_def s2_def by (rule refl)
  have c4: "current_conn s4 = None"
    by (simp add: s4_def s3_def s2_def emit_def release_conn_simps)
  have p4: "keyboard_paired s4 = keyboard_paired s" "keyboard_addr s4 = keyboard_addr s"
    by (simp_all add: s4_def s3_def s2_def emit_def release_conn_simps)
  have h4: "hid_report s4 = replicate 8 0"
    by (simp add: s4_def s3_def s2_def emit_def)
  have t4: "trace s4 = trace s
       @ (case current_conn s of None \<Rightarrow> [] | Some c \<Rightarrow> [Conn_unref c])
       @ (if usb_configured s \<and> hid_dev s \<noteq> None then [Hid_write (replicate 8 0)] else [])
       @ [Sleep 1000]"
    by (simp add: s4_def s3_def s2_def emit_def release_conn_simps)
  have 1: "current_conn (disconnected e conn reason s) = None"
    by (simp add: d c4 current_conn_start_scan current_conn_attempt_reconnect)
  have 2: "hid_report (disconnected e conn reason s) = replicate 8 0"
    using h4 by (simp add: d attempt_reconnect_def start_scan_def emit_def Let_def)
  have 3: "trace (disconnected e conn reason s) = trace s4 @
            (if \<not> keyboard_paired s then [Scan_start]
          else if conn_create_ret e \<noteq> 0 then [Conn_create (keyboard_addr s), Scan_start]
          else [Conn_create (keyboard_addr s), Conn_unref (conn_create_out e)])"
    by (simp add: d trace_start_scan trace_attempt_reconnect c4 p4)
  have 4: "\<exists>s4. current_conn s4 = None
          \<and> keyboard_paired s4 = keyboard_paired s \<and> keyboard_addr s4 = keyboard_addr s
          \<and> disconnected e conn reason s =
              (if keyboard_paired s then attempt_reconnect e s4 else start_scan e s4)"
    using d c4 p4 by auto
  have 5: "emitted s (disconnected e conn reason s) =
       (case current_conn s of None \<Rightarrow> [] | Some c \<Rightarrow> [Conn_unref c])
       @ (if usb_configured s \<and> hid_dev s \<noteq> None then [Hid_write (replicate 8 0)] else [])
       @ [Sleep 1000]
       @ (if \<not> keyboard_paired s then [Scan_start]
          else if conn_create_ret e \<noteq> 0 then [Conn_create (keyboard_addr s), Scan_start]
          else [Conn_create (keyboard_addr s), Conn_unref (conn_create_out e)])"
    by (rule emitted_append) (simp add: 3 t4)
  show ?thesis using 1 2 4 5 by blast
qed

theorem disconnected_rearms_witness:
  "emitted linked_state (disconnected env_ok kbd_conn 0x13 linked_state)
     = [Conn_unref kbd_conn, Hid_write [0, 0, 0, 0, 0, 0, 0, 0], Sleep 1000,
        Conn_create kbd_addr, Conn_unref kbd_conn]
   \<and> emitted init_state (disconnected env_ok kbd_conn 0x08 init_state)
     = [Sleep 1000, Scan_start]"
proof -
  have l: "current_conn linked_state = Some kbd_conn" "usb_configured linked_state"
    "hid_dev linked_state = Some 0" "keyboard_paired linked_state"
    "keyboard_addr linked_state = kbd_addr"
    by (simp_all add: linked_state_def paired_state_def ready_state_def init_state_def)
  have i: "current_conn init_state = None" "\<not> usb_configured init_state"
    "\<not> keyboard_paired init_state"
    by (simp_all add: init_state_def)
  have e: "conn_create_ret env_ok = 0" "conn_create_out env_ok = kbd_conn"
    by (simp_all add: env_ok_def)
  show ?thesis
    using disconnected_rearms [of env_ok kbd_conn "0x13" linked_state]
      disconnected_rearms [of env_ok kbd_conn "0x08" init_state]
    by (simp add: l i e replicate_8)
qed

text \<open>C7, as amended. When the connection attempt that follows a name match fails
  (scan stopped, no handle held), the advertisement handler sleeps 1000 ms and calls
  \<open>start_scan\<close> again. \<open>start_scan\<close> itself makes one call to \<open>bt_le_scan_start\<close> and
  returns, whatever that call returned; the main loop only sleeps and toggles the LED,
  so after any number of its rounds that one call is still the only scan request.\<close>

theorem scan_failure_paths:
  "((data_type d = BT_DATA_NAME_COMPLETE \<or> data_type d = BT_DATA_NAME_SHORTENED)
      \<and> (strstr (copied_name d) TARGET_DEVICE_NAME
          \<or> strstr (copied_name d) TARGET_DEVICE_NAME_ALT
          \<or> strstr (copied_name d) TARGET_DEVICE_NAME_ALT2)
      \<and> scan_stop_ret e = 0 \<and> conn_create_ret e \<noteq> 0 \<and> current_conn s = None \<longrightarrow>
      emitted s (snd (device_found e d addr s))
        = [Scan_stop, Sleep 100, Conn_create addr, Sleep 1000, Scan_start])
   \<and> (current_conn s = None \<longrightarrow>
        start_scan e s = emit [Scan_start] s
        \<and> set (emitted s ((main_loop_iter ^^ n) (start_scan e s)))
            \<subseteq> {Scan_start, Sleep 1000, Led_toggle}
        \<and> length (filter (\<lambda>ev. ev = Scan_start)
                    (emitted s ((main_loop_iter ^^ n) (start_scan e s)))) = 1)"
proof (intro conjI impI)
  assume h: "(data_type d = BT_DATA_NAME_COMPLETE \<or> data_type d = BT_DATA_NAME_SHORTENED)
      \<and> (strstr (copied_name d) TARGET_DEVICE_NAME
          \<or> strstr (copied_name d) TARGET_DEVICE_NAME_ALT
          \<or> strstr (copied_name d) TARGET_DEVICE_NAME_ALT2)
      \<and> scan_stop_ret e = 0 \<and> conn_create_ret e \<noteq> 0 \<and> current_conn s = None"
  then have "snd (device_found e d addr s) =
      start_scan e (emit [Sleep 1000] (emit [Conn_create addr] (emit [Sleep 100] (emit [Scan_stop] s))))"
    by (simp add: device_found_def Let_def)
  then show "emitted s (snd (device_found e d addr s))
        = [Scan_stop, Sleep 100, Conn_create addr, Sleep 1000, Scan_start]"
    using h by (simp add: start_scan_def emit_def emitted_def Let_def)
next
  assume h: "current_conn s = None"
  show ss: "start_scan e s = emit [Scan_start] s"
    using h by (simp add: start_scan_def Let_def)
  let ?s1 = "start_scan e s"
  have t1: "trace ?s1 = trace s @ [Scan_start]"
    by (simp add: ss emit_def)
  obtain evs where tn: "trace ((main_loop_iter ^^ n) ?s1) = trace ?s1 @ evs"
    and sub: "set evs \<subseteq> {Sleep 1000, Led_toggle}"
    using trace_main_loop [of n ?s1] by blast
  have em: "emitted s ((main_loop_iter ^^ n) ?s1) = Scan_start # evs"
    by (rule emitted_append) (simp add: tn t1)
  show "set (emitted s ((main_loop_iter ^^ n) (start_scan e s)))
            \<subseteq> {Scan_start, Sleep 1000, Led_toggle}"
    using sub by (auto simp: em)
  have "filter (\<lambda>ev. ev = Scan_start) evs = []"
    using sub by (auto simp: filter_empty_conv)
  then show "length (filter (\<lambda>ev. ev = Scan_start)
                    (emitted s ((main_loop_iter ^^ n) (start_scan e s)))) = 1"
    by (simp add: em)
qed

theorem scan_failure_paths_witness:
  "data_type adv_name = BT_DATA_NAME_COMPLETE
   \<and> strstr (copied_name adv_name) TARGET_DEVICE_NAME
   \<and> scan_stop_ret env_create_fail = 0 \<and> conn_create_ret env_create_fail \<noteq> 0
   \<and> current_conn ready_state = None
   \<and> emitted ready_state (snd (device_found env_create_fail adv_name kbd_addr ready_state))
       = [Scan_stop, Sleep 100, Conn_create kbd_addr, Sleep 1000, Scan_start]
   \<and> length (filter (\<lambda>ev. ev = Scan_start)
        (emitted ready_state ((main_loop_iter ^^ 60) (start_scan env_scan_fail ready_state)))) = 1"
proof -
  have n: "strstr (copied_name adv_name) TARGET_DEVICE_NAME"
    by (simp add: copied_name_def adv_name_def TARGET_DEVICE_NAME_def)
  have t: "data_type adv_name = BT_DATA_NAME_COMPLETE"
    by (simp add: adv_name_def)
  have e: "scan_stop_ret env_create_fail = 0 \<and> conn_create_ret env_create_fail \<noteq> 0"
    by (simp add: env_create_fail_def env_ok_def)
  have c: "current_conn ready_state = None"
    by (simp add: ready_state_def init_state_def)
  have "emitted ready_state (snd (device_found env_create_fail adv_name kbd_addr ready_state))
       = [Scan_stop, Sleep 100, Conn_create kbd_addr, Sleep 1000, Scan_start]"
    using n t e c scan_failure_paths [of adv_name env_create_fail ready_state kbd_addr 60]
    by blast
  moreover have "length (filter (\<lambda>ev. ev = Scan_start)
        (emitted ready_state ((main_loop_iter ^^ 60) (start_scan env_scan_fail ready_state)))) = 1"
    using c scan_failure_paths [of adv_name env_scan_fail ready_state kbd_addr 60]
    by blast
  ultimately show ?thesis
    using n t e c by blast
qed

text \<open>The claim as stated fails: the scan does not start (\<open>bt_le_scan_start\<close> returns
  \<open>-EIO\<close>) and no handle is held; three rounds of the main loop later the trace holds
  that one refused call and nothing that would scan, connect or retry.\<close>

theorem scan_start_failure_counterexample:
  "scan_start_ret env_scan_fail \<noteq> 0
   \<and> emitted ready_state
       (main_loop_iter (main_loop_iter (main_loop_iter (start_scan env_scan_fail ready_state))))
     = [Scan_start, Sleep 1000, Led_toggle, Sleep 1000, Led_toggle, Sleep 1000, Led_toggle]"
  by (simp add: env_scan_fail_def env_ok_def ready_state_def init_state_def start_scan_def
      main_loop_iter_def emit_def emitted_def Let_def)

subsection \<open>Button\<close>

text \<open>C8. Every press stores its time stamp, however it is classified. A press at
  \<open>t2\<close>, not earlier than the stored time stamp of the press before it, is flagged as a
  double press exactly when the gap is under 500 ms. A press so flagged runs the unpair
  branch: the pairing flag is false and the stored address zero afterwards, and the
  settings entry is deleted. A press not so flagged leaves the pairing flag alone and
  deletes nothing.\<close>

theorem double_press_threshold:
  "button_press_time (press e2 t2 s) = t2
   \<and> (button_press_time s \<le> t2 \<longrightarrow>
        (button_double_press (button_pressed t2 s)
           \<longleftrightarrow> unat t2 - unat (button_press_time s) < 500)
      \<and> (unat t2 - unat (button_press_time s) < 500 \<longrightarrow>
           press e2 t2 s = unpair_branch e2 (button_pressed t2 s)
         \<and> \<not> keyboard_paired (press e2 t2 s)
         \<and> keyboard_addr (press e2 t2 s) = zero_addr
         \<and> Settings_save None \<in> set (emitted s (press e2 t2 s)))
      \<and> (\<not> unat t2 - unat (button_press_time s) < 500 \<longrightarrow>
           keyboard_paired (press e2 t2 s) = keyboard_paired s
         \<and> Settings_save None \<notin> set (emitted s (press e2 t2 s))))"
proof (intro conjI impI)
  show "button_press_time (press e2 t2 s) = t2"
    by (simp add: press_def button_work_handler_time button_pressed_simps)
next
  assume le: "button_press_time s \<le> t2"
  show "button_double_press (button_pressed t2 s)
           \<longleftrightarrow> unat t2 - unat (button_press_time s) < 500"
    by (simp add: button_pressed_simps gap_below_500 [OF le])
next
  assume le: "button_press_time s \<le> t2"
    and gap: "unat t2 - unat (button_press_time s) < 500"
  then have dbl: "button_double_press (button_pressed t2 s)"
    by (simp add: button_pressed_simps gap_below_500 [OF le])
  then show p: "press e2 t2 s = unpair_branch e2 (button_pressed t2 s)"
    by (simp add: press_def button_work_handler_def)
  show "\<not> keyboard_paired (press e2 t2 s)"
    by (simp add: p unpair_branch_simps)
  show "keyboard_addr (press e2 t2 s) = zero_addr"
    by (simp add: p unpair_branch_simps)
  show "Settings_save None \<in> set (emitted s (press e2 t2 s))"
    by (simp add: p emitted_def unpair_branch_simps button_pressed_simps)
next
  assume le: "button_press_time s \<le> t2"
    and gap: "\<not> unat t2 - unat (button_press_time s) < 500"
  then have sgl: "\<not> button_double_press (button_pressed t2 s)"
    by (simp add: button_pressed_simps gap_below_500 [OF le])
  then have p: "press e2 t2 s =
      (if current_conn s = None \<and> keyboard_paired s
       then attempt_reconnect e2 (button_pressed t2 s) else button_pressed t2 s)"
    by (simp add: press_def button_work_handler_def button_pressed_simps Let_def)
  show "keyboard_paired (press e2 t2 s) = keyboard_paired s"
    by (simp add: p keyboard_paired_attempt_reconnect button_pressed_simps)
  show "Settings_save None \<notin> set (emitted s (press e2 t2 s))"
    by (simp add: p emitted_def trace_attempt_reconnect button_pressed_simps)
qed

theorem double_press_threshold_witness:
  "button_press_time (press env_ok 1000 paired_state) \<le> 1499
   \<and> button_double_press (button_pressed 1499 (press env_ok 1000 paired_state))
   \<and> \<not> keyboard_paired (press env_ok 1499 (press env_ok 1000 paired_state))
   \<and> Settings_save None
        \<in> set (emitted (press env_ok 1000 paired_state)
                 (press env_ok 1499 (press env_ok 1000 paired_state)))
   \<and> \<not> button_double_press (button_pressed 1501 (press env_ok 1000 paired_state))
   \<and> keyboard_paired (press env_ok 1501 (press env_ok 1000 paired_state))
   \<and> button_double_press (button_pressed 1200 (press env_ok 1000 paired_state))
   \<and> button_double_press
        (button_pressed 1400 (press env_ok 1200 (press env_ok 1000 paired_state)))"
proof -
  let ?s1 = "press env_ok 1000 paired_state"
  let ?s2 = "press env_ok 1200 ?s1"
  have p0: "button_press_time paired_state \<le> 1000"
    "\<not> unat (1000 :: u64) - unat (button_press_time paired_state) < 500"
    "keyboard_paired paired_state"
    by (simp_all add: paired_state_def ready_state_def init_state_def)
  have t1: "button_press_time ?s1 = 1000" and k1: "keyboard_paired ?s1"
    using p0 double_press_threshold [of env_ok 1000 paired_state] by blast+
  have t2: "button_press_time ?s2 = 1200"
    using double_press_threshold [of env_ok 1200 ?s1] by blast
  have g1: "button_press_time ?s1 \<le> 1499" "button_press_time ?s1 \<le> 1501"
    "button_press_time ?s1 \<le> 1200"
    "unat (1499 :: u64) - unat (button_press_time ?s1) < 500"
    "\<not> unat (1501 :: u64) - unat (button_press_time ?s1) < 500"
    "unat (1200 :: u64) - unat (button_press_time ?s1) < 500"
    by (simp_all add: t1)
  have g2: "button_press_time ?s2 \<le> 1400"
    "unat (1400 :: u64) - unat (button_press_time ?s2) < 500"
    by (simp_all add: t2)
  have a: "button_double_press (button_pressed 1499 ?s1)
      \<and> \<not> keyboard_paired (press env_ok 1499 ?s1)
      \<and> Settings_save None \<in> set (emitted ?s1 (press env_ok 1499 ?s1))"
    using g1 double_press_threshold [of env_ok 1499 ?s1] by blast
  have b: "\<not> button_double_press (button_pressed 1501 ?s1)
      \<and> keyboard_paired (press env_ok 1501 ?s1)"
    using g1 k1 double_press_threshold [of env_ok 1501 ?s1] by blast
  have c: "button_double_press (button_pressed 1200 ?s1)"
    using g1 double_press_threshold [of env_ok 1200 ?s1] by blast
  have d: "button_double_press (button_pressed 1400 ?s2)"
    using g2 double_press_threshold [of env_ok 1400 ?s2] by blast
  show ?thesis
    using g1(1) a b c d by blast
qed

text \<open>C9, as amended. A work item that finds the press single and no handle held calls
  \<open>attempt_reconnect\<close> when a pairing is recorded, which opens with a direct connection
  to the stored address; with no pairing recorded it does nothing.\<close>

theorem single_press_reconnect:
  assumes "\<not> button_double_press s" and "current_conn s = None"
  shows "(keyboard_paired s \<longrightarrow>
            button_work_handler e s = attempt_reconnect e s
            \<and> (\<exists>evs. emitted s (button_work_handler e s)
                        = Conn_create (keyboard_addr s) # evs))
       \<and> (\<not> keyboard_paired s \<longrightarrow> button_work_handler e s = s)"
  using assms
  by (simp add: button_work_handler_def Let_def emitted_def trace_attempt_reconnect)

theorem single_press_reconnect_witness:
  "\<not> button_double_press paired_state \<and> current_conn paired_state = None
   \<and> keyboard_paired paired_state
   \<and> button_work_handler env_ok paired_state = attempt_reconnect env_ok paired_state
   \<and> \<not> keyboard_paired ready_state
   \<and> button_work_handler env_ok ready_state = ready_state"
proof -
  have p: "\<not> button_double_press paired_state" "current_conn paired_state = None"
    by (simp_all add: paired_state_def ready_state_def init_state_def)
  have r: "\<not> button_double_press ready_state" "current_conn ready_state = None"
    by (simp_all add: ready_state_def init_state_def)
  have k: "keyboard_paired paired_state" "\<not> keyboard_paired ready_state"
    by (simp_all add: paired_state_def ready_state_def init_state_def)
  show ?thesis
    using p r k single_press_reconnect [OF p, of env_ok] single_press_reconnect [OF r, of env_ok]
    by blast
qed

text \<open>The claim as stated fails: one second after boot, with no pairing recorded and no
  handle held, a press is single and the work item makes no call at all, where
  \<open>attempt_reconnect\<close> would have started the scan.\<close>

theorem single_press_unpaired_counterexample:
  "\<not> button_double_press (button_pressed 1000 ready_state)
   \<and> current_conn (button_pressed 1000 ready_state) = None
   \<and> emitted ready_state (press env_ok 1000 ready_state) = [Work_submit]
   \<and> emitted ready_state (attempt_reconnect env_ok (button_pressed 1000 ready_state))
       = [Work_submit, Scan_start]"
  by (simp add: press_def button_work_handler_def button_pressed_def attempt_reconnect_def
      start_scan_def ready_state_def init_state_def env_ok_def emit_def emitted_def Let_def)

text \<open>C10. A work item that finds the double press flagged ends, from every state,
  with no handle held, the pairing flag false, the stored address zero and the flag
  cleared; its calls are the disconnect and release of the handle if one was held, then
  the deletion of the settings entry, a sleep of 100 ms and the start of the scan. Run a
  second time at once, the handler changes nothing and makes no call. Run a second time
  after the interrupt handler has flagged another double press, it changes no other
  variable and repeats only the deletion, the sleep and the start of the scan.\<close>

theorem unpair_idempotent:
  "button_double_press s \<longrightarrow>
     current_conn (button_work_handler e1 s) = None
     \<and> \<not> keyboard_paired (button_work_handler e1 s)
     \<and> keyboard_addr (button_work_handler e1 s) = zero_addr
     \<and> \<not> button_double_press (button_work_handler e1 s)
     \<and> emitted s (button_work_handler e1 s) =
         (case current_conn s of None \<Rightarrow> []
          | Some c \<Rightarrow> [Conn_disconnect c BT_HCI_ERR_REMOTE_USER_TERM_CONN, Conn_unref c])
         @ [Settings_save None, Sleep 100, Scan_start]
     \<and> button_work_handler e2 (button_work_handler e1 s) = button_work_handler e1 s
     \<and> button_work_handler e2 ((button_work_handler e1 s)\<lparr>button_double_press := True\<rparr>) =
         (button_work_handler e1 s)
           \<lparr>trace := trace (button_work_handler e1 s)
                       @ [Settings_save None, Sleep 100, Scan_start]\<rparr>"
proof
  assume f: "button_double_press s"
  let ?s1 = "button_work_handler e1 s"
  have u: "?s1 = unpair_branch e1 s"
    using f by (simp add: button_work_handler_def)
  have c: "current_conn ?s1 = None" and k: "\<not> keyboard_paired ?s1"
    and a: "keyboard_addr ?s1 = zero_addr" and b: "\<not> button_double_press ?s1"
    by (simp_all add: u unpair_branch_simps)
  have t: "emitted s ?s1 =
         (case current_conn s of None \<Rightarrow> []
          | Some c \<Rightarrow> [Conn_disconnect c BT_HCI_ERR_REMOTE_USER_TERM_CONN, Conn_unref c])
         @ [Settings_save None, Sleep 100, Scan_start]"
    by (simp add: u emitted_def unpair_branch_simps)
  have once: "button_work_handler e2 ?s1 = ?s1"
    using b k by (simp add: button_work_handler_def Let_def)
  have "unpair_branch e2 (?s1\<lparr>button_double_press := True\<rparr>) =
          ?s1\<lparr>trace := trace ?s1 @ [Settings_save None, Sleep 100, Scan_start]\<rparr>"
    unfolding u
    by (cases "current_conn s")
       (simp_all add: unpair_branch_def start_scan_def emit_def Let_def)
  then have again: "button_work_handler e2 (?s1\<lparr>button_double_press := True\<rparr>) =
          ?s1\<lparr>trace := trace ?s1 @ [Settings_save None, Sleep 100, Scan_start]\<rparr>"
    by (simp add: button_work_handler_def)
  show "current_conn ?s1 = None
     \<and> \<not> keyboard_paired ?s1
     \<and> keyboard_addr ?s1 = zero_addr
     \<and> \<not> button_double_press ?s1
     \<and> emitted s ?s1 =
         (case current_conn s of None \<Rightarrow> []
          | Some c \<Rightarrow> [Conn_disconnect c BT_HCI_ERR_REMOTE_USER_TERM_CONN, Conn_unref c])
         @ [Settings_save None, Sleep 100, Scan_start]
     \<and> button_work_handler e2 ?s1 = ?s1
     \<and> button_work_handler e2 (?s1\<lparr>button_double_press := True\<rparr>) =
         ?s1\<lparr>trace := trace ?s1 @ [Settings_save None, Sleep 100, Scan_start]\<rparr>"
    using c k a b t once again by blast
qed

theorem unpair_idempotent_witness:
  "button_double_press unpair_state
   \<and> emitted unpair_state (button_work_handler env_ok unpair_state)
     = [Conn_disconnect kbd_conn 0x13, Conn_unref kbd_conn, Settings_save None, Sleep 100,
        Scan_start]
   \<and> \<not> keyboard_paired (button_work_handler env_ok unpair_state)
   \<and> emitted unpair_state
       (button_work_handler env_ok (button_work_handler env_ok unpair_state))
     = [Conn_disconnect kbd_conn 0x13, Conn_unref kbd_conn, Settings_save None, Sleep 100,
        Scan_start]
   \<and> emitted unpair_state
       (button_work_handler env_ok
          ((button_work_handler env_ok unpair_state)\<lparr>button_double_press := True\<rparr>))
     = [Conn_disconnect kbd_conn 0x13, Conn_unref kbd_conn, Settings_save None, Sleep 100,
        Scan_start, Settings_save None, Sleep 100, Scan_start]"
proof -
  let ?s1 = "button_work_handler env_ok unpair_state"
  have f: "button_double_press unpair_state"
    by (simp add: unpair_state_def)
  have c: "current_conn unpair_state = Some kbd_conn"
    by (simp add: unpair_state_def linked_state_def)
  have k: "\<not> keyboard_paired ?s1"
    using f unpair_idempotent [of unpair_state env_ok env_ok] by blast
  have t: "emitted unpair_state ?s1 =
         (case current_conn unpair_state of None \<Rightarrow> []
          | Some c \<Rightarrow> [Conn_disconnect c BT_HCI_ERR_REMOTE_USER_TERM_CONN, Conn_unref c])
         @ [Settings_save None, Sleep 100, Scan_start]"
    using f unpair_idempotent [of unpair_state env_ok env_ok] by blast
  have o: "button_work_handler env_ok ?s1 = ?s1"
    using f unpair_idempotent [of unpair_state env_ok env_ok] by blast
  have g: "button_work_handler env_ok (?s1\<lparr>button_double_press := True\<rparr>) =
          ?s1\<lparr>trace := trace ?s1 @ [Settings_save None, Sleep 100, Scan_start]\<rparr>"
    using f unpair_idempotent [of unpair_state env_ok env_ok] by blast
  have t1: "emitted unpair_state ?s1
     = [Conn_disconnect kbd_conn 0x13, Conn_unref kbd_conn, Settings_save None, Sleep 100,
        Scan_start]"
    by (simp add: t c BT_HCI_ERR_REMOTE_USER_TERM_CONN_def)
  have tr: "trace ?s1 = trace unpair_state
      @ [Conn_disconnect kbd_conn 0x13, Conn_unref kbd_conn, Settings_save None, Sleep 100,
         Scan_start]"
    by (simp add: button_work_handler_def f unpair_branch_simps c
        BT_HCI_ERR_REMOTE_USER_TERM_CONN_def)
  have t2: "emitted unpair_state
       (?s1\<lparr>trace := trace ?s1 @ [Settings_save None, Sleep 100, Scan_start]\<rparr>)
     = [Conn_disconnect kbd_conn 0x13, Conn_unref kbd_conn, Settings_save None, Sleep 100,
        Scan_start, Settings_save None, Sleep 100, Scan_start]"
    by (rule emitted_append) (simp add: tr)
  show ?thesis
    using f k t1 t2 by (simp add: o g)
qed

end
